theory Spec2Isabelle
  imports Complex_Main "HOL-Library.Multiset" "HOL-Library.Product_Lexorder"
begin

section \<open>Python values and exceptions\<close>

text \<open>
  The service receives its observations as dictionaries of arbitrary Python values
  (\<^verbatim>\<open>dict[str, Any]\<close>, decoded from JSON by the routes).  The values that reach the
  service are scalars: \<^verbatim>\<open>None\<close>, booleans, integers, floats, strings, and (for callers
  inside the process) \<^verbatim>\<open>datetime\<close> objects.  A Python \<^verbatim>\<open>str\<close> is a list of characters,
  one \<^typ>\<open>char\<close> per code point.

  A float is kept as the rational number it denotes, or as one of the three special
  values.
\<close>

datatype pyfloat = Fin rat | PosInf | NegInf | NaN

text \<open>
  A \<^verbatim>\<open>datetime\<close> is held under Python's own ordering key: the reading of its wall clock
  in microseconds since 0001-01-01T00:00:00 (ordinal day, then seconds, then
  microseconds), together with the UTC offset of the attached \<^verbatim>\<open>tzinfo\<close> in
  microseconds; \<open>None\<close> is a naive datetime.
\<close>

record datetime =
  wall :: int
  tzinfo :: "int option"

datatype pyval =
    PNone
  | PBool bool
  | PInt int
  | PFloat pyfloat
  | PStr string
  | PDatetime datetime

text \<open>
  Exceptions: the built-in ones the code can meet, and the three classes of
  \<^verbatim>\<open>services/exceptions.py\<close>.  A \<open>ValidationError\<close> carries its message and its
  \<^verbatim>\<open>missing_fields\<close> (\<^verbatim>\<open>missing_fields or []\<close>); a \<open>DatabaseError\<close> carries the fixed
  part of its message and its \<^verbatim>\<open>original_error\<close>.
\<close>

datatype vmessage =
    Missing_required_fields "string list"
  | Invalid_datetime_format pyval
  | No_valid_fields_provided

datatype builtin_error =
    TypeError
  | ValueError
  | OverflowError
  | OSError
  | KeyError
  | IndexError
  | AttributeError

datatype exception =
    Builtin builtin_error
  | ValidationError vmessage "string list"
  | NotFoundError string string
  | DatabaseError string exception

fun is_ValidationError :: "exception \<Rightarrow> bool" where
  "is_ValidationError (ValidationError m fs) = True"
| "is_ValidationError e = False"

fun is_NotFoundError :: "exception \<Rightarrow> bool" where
  "is_NotFoundError (NotFoundError r i) = True"
| "is_NotFoundError e = False"

text \<open>Sequencing of computations that may raise.\<close>

definition bind_exn :: "exception + 'a \<Rightarrow> ('a \<Rightarrow> exception + 'b) \<Rightarrow> exception + 'b" where
  "bind_exn m f = (case m of Inl e \<Rightarrow> Inl e | Inr x \<Rightarrow> f x)"

definition map_exn :: "('a \<Rightarrow> 'b) \<Rightarrow> exception + 'a \<Rightarrow> exception + 'b" where
  "map_exn f m = (case m of Inl e \<Rightarrow> Inl e | Inr x \<Rightarrow> Inr (f x))"

definition raise_builtin :: "builtin_error + 'a \<Rightarrow> exception + 'a" where
  "raise_builtin m = (case m of Inl b \<Rightarrow> Inl (Builtin b) | Inr x \<Rightarrow> Inr x)"

subsection \<open>Truth value, \<^verbatim>\<open>or\<close>, slicing, \<^verbatim>\<open>float()\<close> and \<^verbatim>\<open>int()\<close>\<close>

fun truthy :: "pyval \<Rightarrow> bool" where
  "truthy PNone = False"
| "truthy (PBool b) = b"
| "truthy (PInt n) = (n \<noteq> 0)"
| "truthy (PFloat f) = (f \<noteq> Fin 0)"
| "truthy (PStr s) = (s \<noteq> [])"
| "truthy (PDatetime d) = True"

definition py_or :: "pyval \<Rightarrow> pyval \<Rightarrow> pyval" where
  "py_or a b = (if truthy a then a else b)"

text \<open>\<^verbatim>\<open>d.get(k)\<close> and \<^verbatim>\<open>d[k]\<close> on a dictionary.\<close>

definition dict_get :: "(string \<rightharpoonup> pyval) \<Rightarrow> string \<Rightarrow> pyval" where
  "dict_get d k = (case d k of None \<Rightarrow> PNone | Some v \<Rightarrow> v)"

definition subscript :: "(string \<rightharpoonup> pyval) \<Rightarrow> string \<Rightarrow> exception + pyval" where
  "subscript d k = (case d k of None \<Rightarrow> Inl (Builtin KeyError) | Some v \<Rightarrow> Inr v)"

text \<open>\<^verbatim>\<open>v[:n]\<close>: only a string can be sliced among the scalars.\<close>

fun slice_to :: "nat \<Rightarrow> pyval \<Rightarrow> exception + string" where
  "slice_to n (PStr s) = Inr (take n s)"
| "slice_to n v = Inl (Builtin TypeError)"

text \<open>
  The library functions of the Python runtime that turn text and numbers into values
  are not part of this repository; the service is modelled over any implementation of
  them.  \<open>fromisoformat\<close> and \<open>strptime\<close> give \<open>None\<close> where Python raises
  \<^verbatim>\<open>ValueError\<close>; so do \<open>float_str\<close> and \<open>int_str\<close>, which are \<^verbatim>\<open>float(s)\<close> and
  \<^verbatim>\<open>int(s)\<close> on a string.  \<open>float_int\<close> is \<^verbatim>\<open>float(n)\<close> on an integer (rounded to the
  nearest double, \<^verbatim>\<open>OverflowError\<close> beyond the range), and \<open>timestamp_utc\<close> is the UTC
  wall-clock reading \<^verbatim>\<open>datetime.fromtimestamp\<close> computes for a number before it moves
  it to the zone, or the exception it raises for a number out of range.
\<close>

record pylib =
  fromisoformat :: "string \<Rightarrow> datetime option"
  strptime :: "string \<Rightarrow> string \<Rightarrow> datetime option"
  float_str :: "string \<Rightarrow> pyfloat option"
  int_str :: "string \<Rightarrow> int option"
  float_int :: "int \<Rightarrow> builtin_error + pyfloat"
  timestamp_utc :: "pyval \<Rightarrow> builtin_error + int"

fun py_float :: "pylib \<Rightarrow> pyval \<Rightarrow> exception + pyfloat" where
  "py_float lib PNone = Inl (Builtin TypeError)"
| "py_float lib (PBool b) = Inr (Fin (if b then 1 else 0))"
| "py_float lib (PInt n) = raise_builtin (float_int lib n)"
| "py_float lib (PFloat f) = Inr f"
| "py_float lib (PStr s) = (case float_str lib s of None \<Rightarrow> Inl (Builtin ValueError) | Some f \<Rightarrow> Inr f)"
| "py_float lib (PDatetime d) = Inl (Builtin TypeError)"

text \<open>\<^verbatim>\<open>int()\<close> truncates a finite float towards zero.\<close>

definition trunc_rat :: "rat \<Rightarrow> int" where
  "trunc_rat q = (if 0 \<le> q then \<lfloor>q\<rfloor> else \<lceil>q\<rceil>)"

fun py_int :: "pylib \<Rightarrow> pyval \<Rightarrow> exception + int" where
  "py_int lib PNone = Inl (Builtin TypeError)"
| "py_int lib (PBool b) = Inr (if b then 1 else 0)"
| "py_int lib (PInt n) = Inr n"
| "py_int lib (PFloat (Fin q)) = Inr (trunc_rat q)"
| "py_int lib (PFloat NaN) = Inl (Builtin ValueError)"
| "py_int lib (PFloat f) = Inl (Builtin OverflowError)"
| "py_int lib (PStr s) = (case int_str lib s of None \<Rightarrow> Inl (Builtin ValueError) | Some n \<Rightarrow> Inr n)"
| "py_int lib (PDatetime d) = Inl (Builtin TypeError)"

section \<open>Time zones\<close>

text \<open>
  The configured zone (\<^verbatim>\<open>pytz.timezone(TIMEZONE)\<close>) comes from the time-zone database,
  which is outside the repository; a zone is given by the two questions the code asks
  of it.  \<open>utcoffset_at\<close> is the offset in force at a UTC reading (what \<^verbatim>\<open>fromutc\<close>
  attaches), \<open>localize_offset\<close> the offset \<^verbatim>\<open>tz.localize\<close> chooses for a naive wall
  reading.  Offsets are in microseconds.
\<close>

record zone =
  utcoffset_at :: "int \<Rightarrow> int"
  localize_offset :: "int \<Rightarrow> int"

definition fixed_zone :: "int \<Rightarrow> zone" where
  "fixed_zone off = \<lparr>utcoffset_at = (\<lambda>u. off), localize_offset = (\<lambda>w. off)\<rparr>"

definition day_us :: int where
  "day_us = 86400000000"

definition hour_us :: int where
  "hour_us = 3600000000"

text \<open>\<^verbatim>\<open>datetime.max\<close> is 9999-12-31T23:59:59.999999, the last microsecond of ordinal day 3652059.\<close>

definition max_wall :: int where
  "max_wall = 3652059 * day_us - 1"

definition in_range :: "int \<Rightarrow> bool" where
  "in_range w = (0 \<le> w \<and> w \<le> max_wall)"

text \<open>The UTC reading of an aware datetime; Python compares and subtracts aware datetimes by it.\<close>

definition utc_us :: "datetime \<Rightarrow> int" where
  "utc_us d = wall d - (case tzinfo d of None \<Rightarrow> 0 | Some off \<Rightarrow> off)"

definition localize :: "zone \<Rightarrow> datetime \<Rightarrow> datetime" where
  "localize tz d = d\<lparr>tzinfo := Some (localize_offset tz (wall d))\<rparr>"

text \<open>
  \<^verbatim>\<open>tz.fromutc\<close> and \<^verbatim>\<open>dt.astimezone(tz)\<close> for an aware \<open>dt\<close> with offset \<open>off\<close>:
  datetime arithmetic raises \<^verbatim>\<open>OverflowError\<close> when it leaves the years 1 to 9999.
\<close>

definition fromutc :: "zone \<Rightarrow> int \<Rightarrow> exception + datetime" where
  "fromutc tz u =
     (let off = utcoffset_at tz u in
      if in_range (u + off) then Inr \<lparr>wall = u + off, tzinfo = Some off\<rparr>
      else Inl (Builtin OverflowError))"

definition astimezone :: "zone \<Rightarrow> int \<Rightarrow> datetime \<Rightarrow> exception + datetime" where
  "astimezone tz off d =
     (if in_range (wall d - off) then fromutc tz (wall d - off) else Inl (Builtin OverflowError))"

text \<open>
  The idiom \<^verbatim>\<open>dt.astimezone(tz) if dt.tzinfo else tz.localize(dt)\<close>, which the service
  writes out in each place.
\<close>

definition astimezone_or_localize :: "zone \<Rightarrow> datetime \<Rightarrow> exception + datetime" where
  "astimezone_or_localize tz d =
     (case tzinfo d of Some off \<Rightarrow> astimezone tz off d | None \<Rightarrow> Inr (localize tz d))"

text \<open>
  \<^verbatim>\<open>datetime.now(tz)\<close>: the clock is a parameter, the UTC reading \<open>now\<close> of the moment
  of the call.
\<close>

definition datetime_now :: "zone \<Rightarrow> int \<Rightarrow> datetime" where
  "datetime_now tz now = \<lparr>wall = now + utcoffset_at tz now, tzinfo = Some (utcoffset_at tz now)\<rparr>"

definition fromtimestamp :: "pylib \<Rightarrow> zone \<Rightarrow> pyval \<Rightarrow> exception + datetime" where
  "fromtimestamp lib tz v = bind_exn (raise_builtin (timestamp_utc lib v)) (fromutc tz)"

section \<open>The timestamp normalizer: \<^verbatim>\<open>InventoryService._parse_datetime\<close>\<close>

text \<open>\<^verbatim>\<open>str.strip()\<close> removes the white space of both ends (code points below 256).\<close>

definition isspace :: "char \<Rightarrow> bool" where
  "isspace c = (of_char c \<in> {9, 10, 11, 12, 13, 28, 29, 30, 31, 32, 133, 160 :: nat})"

definition strip :: "string \<Rightarrow> string" where
  "strip s = rev (dropWhile isspace (rev (dropWhile isspace s)))"

definition z_to_offset :: "string \<Rightarrow> string" where
  "z_to_offset s = (if s \<noteq> [] \<and> last s = CHR ''Z'' then butlast s @ ''+00:00'' else s)"

text \<open>
  The loop over the fallback formats.  \<^verbatim>\<open>tz.localize\<close> raises \<^verbatim>\<open>ValueError\<close> on a
  datetime that is not naive, which the loop's handler catches like a failed parse.
\<close>

fun try_formats :: "pylib \<Rightarrow> zone \<Rightarrow> string \<Rightarrow> string list \<Rightarrow> datetime option" where
  "try_formats lib tz s [] = None"
| "try_formats lib tz s (fmt # fmts) =
     (case strptime lib s fmt of
        None \<Rightarrow> try_formats lib tz s fmts
      | Some dt \<Rightarrow> (if tzinfo dt = None then Some (localize tz dt)
                   else try_formats lib tz s fmts))"

definition parse_string :: "pylib \<Rightarrow> zone \<Rightarrow> pyval \<Rightarrow> string \<Rightarrow> exception + datetime option" where
  "parse_string lib tz value s0 =
     (let s = strip s0 in
      if s = [] then Inr None
      else
        let s = z_to_offset s in
        case fromisoformat lib s of
          Some dt \<Rightarrow> map_exn Some (astimezone_or_localize tz dt)
        | None \<Rightarrow>
            (case try_formats lib tz s [''%Y-%m-%d'', ''%d/%m/%Y''] of
               Some dt \<Rightarrow> Inr (Some dt)
             | None \<Rightarrow> Inl (ValidationError (Invalid_datetime_format value) [])))"

fun parse_datetime :: "pylib \<Rightarrow> zone \<Rightarrow> pyval \<Rightarrow> exception + datetime option" where
  "parse_datetime lib tz PNone = Inr None"
| "parse_datetime lib tz (PDatetime d) = map_exn Some (astimezone_or_localize tz d)"
| "parse_datetime lib tz (PBool b) = map_exn Some (fromtimestamp lib tz (PBool b))"
| "parse_datetime lib tz (PInt n) = map_exn Some (fromtimestamp lib tz (PInt n))"
| "parse_datetime lib tz (PFloat f) = map_exn Some (fromtimestamp lib tz (PFloat f))"
| "parse_datetime lib tz (PStr s) =
     (if s = [] then Inr None else parse_string lib tz (PStr s) s)"

section \<open>The record store\<close>

text \<open>
  One row of the table \<^verbatim>\<open>inventory\<close> (\<^verbatim>\<open>models/inventory.py\<close>, \<^verbatim>\<open>models/mixins.py\<close>);
  a nullable column is an option.
\<close>

record Inventory =
  machine_id :: string
  hostname :: string
  ip :: string
  os :: string
  os_version :: "string option"
  cpu_percent :: pyfloat
  memory_total_mb :: int
  memory_used_mb :: "int option"
  computer_model :: "string option"
  computer_activation :: "datetime option"
  activation_days :: "int option"
  created_at :: datetime
  updated_at :: "datetime option"

text \<open>
  The database session: \<open>table\<close> holds the committed rows by primary key, \<open>dirty\<close> the
  objects the session has loaded or added, with the attribute values assigned to them
  since the last commit.  The store itself is taken as reliable: a commit writes the
  session's objects and does not fail.
\<close>

record session =
  table :: "string \<rightharpoonup> Inventory"
  dirty :: "string \<rightharpoonup> Inventory"

definition session_get :: "session \<Rightarrow> string \<Rightarrow> Inventory option" where
  "session_get s k = (case dirty s k of Some x \<Rightarrow> Some x | None \<Rightarrow> table s k)"

definition session_put :: "session \<Rightarrow> Inventory \<Rightarrow> session" where
  "session_put s x = s\<lparr>dirty := (dirty s)(machine_id x \<mapsto> x)\<rparr>"

definition session_commit :: "session \<Rightarrow> session" where
  "session_commit s = \<lparr>table = table s ++ dirty s, dirty = Map.empty\<rparr>"

definition session_rollback :: "session \<Rightarrow> session" where
  "session_rollback s = s\<lparr>dirty := Map.empty\<rparr>"

definition get_by_id :: "session \<Rightarrow> string \<Rightarrow> exception + Inventory" where
  "get_by_id s k =
     (case session_get s k of
        None \<Rightarrow> Inl (NotFoundError ''Inventory'' k)
      | Some x \<Rightarrow> Inr x)"

section \<open>The reconciliation engine: \<^verbatim>\<open>create_or_update\<close> and \<^verbatim>\<open>partial_update\<close>\<close>

text \<open>
  A block of statements that each assign to the object in hand, or raise: the block
  stops at the first exception, with the object as the statements before it left it.
\<close>

fun run_steps :: "('s \<Rightarrow> exception + 's) list \<Rightarrow> 's \<Rightarrow> exception option \<times> 's" where
  "run_steps [] x = (None, x)"
| "run_steps (f # fs) x = (case f x of Inl e \<Rightarrow> (Some e, x) | Inr y \<Rightarrow> run_steps fs y)"

definition required :: "string list" where
  "required = [''machine_id'', ''hostname'', ''ip'', ''os'', ''cpu_percent'', ''memory_total_mb'']"

text \<open>The right-hand sides of the eight core fields, as both branches write them.\<close>

definition hostname_of :: "(string \<rightharpoonup> pyval) \<Rightarrow> exception + string" where
  "hostname_of data = bind_exn (subscript data ''hostname'') (slice_to 100)"

definition ip_of :: "(string \<rightharpoonup> pyval) \<Rightarrow> exception + string" where
  "ip_of data = bind_exn (subscript data ''ip'') (slice_to 45)"

definition os_of :: "(string \<rightharpoonup> pyval) \<Rightarrow> exception + string" where
  "os_of data = bind_exn (subscript data ''os'') (slice_to 100)"

definition os_version_of :: "(string \<rightharpoonup> pyval) \<Rightarrow> exception + string option" where
  "os_version_of data =
     map_exn Some (slice_to 100 (py_or (dict_get data ''os_version'') (PStr [])))"

definition cpu_percent_of :: "pylib \<Rightarrow> (string \<rightharpoonup> pyval) \<Rightarrow> exception + pyfloat" where
  "cpu_percent_of lib data = bind_exn (subscript data ''cpu_percent'') (py_float lib)"

definition memory_total_mb_of :: "pylib \<Rightarrow> (string \<rightharpoonup> pyval) \<Rightarrow> exception + int" where
  "memory_total_mb_of lib data = bind_exn (subscript data ''memory_total_mb'') (py_int lib)"

definition memory_used_mb_of :: "pylib \<Rightarrow> (string \<rightharpoonup> pyval) \<Rightarrow> exception + int option" where
  "memory_used_mb_of lib data =
     map_exn Some (py_int lib (py_or (dict_get data ''memory_used_mb'') (PInt 0)))"

definition computer_model_of :: "(string \<rightharpoonup> pyval) \<Rightarrow> exception + string option" where
  "computer_model_of data =
     (if truthy (dict_get data ''computer_model'')
      then map_exn Some (slice_to 100 (py_or (dict_get data ''computer_model'') (PStr [])))
      else Inr None)"

text \<open>The two optional fields, touched only when their key is in the observation.\<close>

definition set_computer_activation ::
  "pylib \<Rightarrow> zone \<Rightarrow> (string \<rightharpoonup> pyval) \<Rightarrow> Inventory \<Rightarrow> exception + Inventory" where
  "set_computer_activation lib tz data x =
     (if data ''computer_activation'' \<noteq> None
      then map_exn (\<lambda>a. x\<lparr>computer_activation := a\<rparr>)
             (bind_exn (subscript data ''computer_activation'') (parse_datetime lib tz))
      else Inr x)"

definition set_activation_days ::
  "pylib \<Rightarrow> (string \<rightharpoonup> pyval) \<Rightarrow> Inventory \<Rightarrow> exception + Inventory" where
  "set_activation_days lib data x =
     (if data ''activation_days'' \<noteq> None
      then (if dict_get data ''activation_days'' \<noteq> PNone
            then map_exn (\<lambda>n. x\<lparr>activation_days := Some n\<rparr>)
                   (bind_exn (subscript data ''activation_days'') (py_int lib))
            else Inr (x\<lparr>activation_days := None\<rparr>))
      else Inr x)"

text \<open>
  The assignments to the eight core fields, in the order of the source, and the two
  statements for the optional fields, which both branches have alike.
\<close>

definition core_steps ::
  "pylib \<Rightarrow> (string \<rightharpoonup> pyval) \<Rightarrow> (Inventory \<Rightarrow> exception + Inventory) list" where
  "core_steps lib data =
     [\<lambda>x. map_exn (\<lambda>v. x\<lparr>hostname := v\<rparr>) (hostname_of data),
      \<lambda>x. map_exn (\<lambda>v. x\<lparr>ip := v\<rparr>) (ip_of data),
      \<lambda>x. map_exn (\<lambda>v. x\<lparr>os := v\<rparr>) (os_of data),
      \<lambda>x. map_exn (\<lambda>v. x\<lparr>os_version := v\<rparr>) (os_version_of data),
      \<lambda>x. map_exn (\<lambda>v. x\<lparr>cpu_percent := v\<rparr>) (cpu_percent_of lib data),
      \<lambda>x. map_exn (\<lambda>v. x\<lparr>memory_total_mb := v\<rparr>) (memory_total_mb_of lib data),
      \<lambda>x. map_exn (\<lambda>v. x\<lparr>memory_used_mb := v\<rparr>) (memory_used_mb_of lib data),
      \<lambda>x. map_exn (\<lambda>v. x\<lparr>computer_model := v\<rparr>) (computer_model_of data)]"

definition optional_steps ::
  "pylib \<Rightarrow> zone \<Rightarrow> (string \<rightharpoonup> pyval) \<Rightarrow> (Inventory \<Rightarrow> exception + Inventory) list" where
  "optional_steps lib tz data =
     [set_computer_activation lib tz data, set_activation_days lib data]"

text \<open>The branch \<^verbatim>\<open>if existing:\<close> of the \<^verbatim>\<open>try\<close> block, up to its \<^verbatim>\<open>return existing, False\<close>.\<close>

definition update_existing ::
  "pylib \<Rightarrow> zone \<Rightarrow> int \<Rightarrow> (string \<rightharpoonup> pyval) \<Rightarrow> Inventory \<Rightarrow> session
     \<Rightarrow> (exception + Inventory \<times> bool) \<times> session" where
  "update_existing lib tz now data existing s =
     (case run_steps (core_steps lib data @ optional_steps lib tz data) existing of
        (Some e, x) \<Rightarrow> (Inl e, session_put s x)
      | (None, x) \<Rightarrow>
          (let y = x\<lparr>updated_at := Some (datetime_now tz now)\<rparr>
           in (Inr (y, False), session_commit (session_put s y))))"

text \<open>
  The constructor call \<^verbatim>\<open>Inventory(machine_id=..., ..., created_at=now_tz)\<close>: its
  arguments are evaluated in the order written; the fields it does not name are \<^verbatim>\<open>None\<close>.
\<close>

definition new_inventory ::
  "pylib \<Rightarrow> zone \<Rightarrow> int \<Rightarrow> (string \<rightharpoonup> pyval) \<Rightarrow> string \<Rightarrow> exception + Inventory" where
  "new_inventory lib tz now data k =
     bind_exn (hostname_of data) (\<lambda>h.
     bind_exn (ip_of data) (\<lambda>i.
     bind_exn (os_of data) (\<lambda>sys.
     bind_exn (os_version_of data) (\<lambda>ver.
     bind_exn (cpu_percent_of lib data) (\<lambda>cpu.
     bind_exn (memory_total_mb_of lib data) (\<lambda>total.
     bind_exn (memory_used_mb_of lib data) (\<lambda>used.
     bind_exn (computer_model_of data) (\<lambda>model.
       Inr \<lparr>machine_id = k, hostname = h, ip = i, os = sys, os_version = ver,
            cpu_percent = cpu, memory_total_mb = total, memory_used_mb = used,
            computer_model = model, computer_activation = None, activation_days = None,
            created_at = datetime_now tz now, updated_at = None\<rparr>))))))))"

text \<open>The branch \<^verbatim>\<open># Create new\<close>: nothing reaches the session before \<^verbatim>\<open>db.session.add\<close>.\<close>

definition create_new ::
  "pylib \<Rightarrow> zone \<Rightarrow> int \<Rightarrow> (string \<rightharpoonup> pyval) \<Rightarrow> string \<Rightarrow> session
     \<Rightarrow> (exception + Inventory \<times> bool) \<times> session" where
  "create_new lib tz now data k s =
     (case new_inventory lib tz now data k of
        Inl e \<Rightarrow> (Inl e, s)
      | Inr obj \<Rightarrow>
          (case run_steps (optional_steps lib tz data) obj of
             (Some e, x) \<Rightarrow> (Inl e, s)
           | (None, x) \<Rightarrow> (Inr (x, True), session_commit (session_put s x))))"

text \<open>
  The body of the \<^verbatim>\<open>try\<close> block.  The primary key is a string column and the table is
  keyed by strings; an observation whose \<open>machine_id\<close> is not a string is outside the
  table's type, and the model lets the lookup raise.
\<close>

definition create_or_update_body ::
  "pylib \<Rightarrow> zone \<Rightarrow> int \<Rightarrow> (string \<rightharpoonup> pyval) \<Rightarrow> session
     \<Rightarrow> (exception + Inventory \<times> bool) \<times> session" where
  "create_or_update_body lib tz now data s =
     (case data ''machine_id'' of
        Some (PStr k) \<Rightarrow>
          (case session_get s k of
             Some existing \<Rightarrow> update_existing lib tz now data existing s
           | None \<Rightarrow> create_new lib tz now data k s)
      | _ \<Rightarrow> (Inl (Builtin TypeError), s))"

text \<open>
  \<^verbatim>\<open>create_or_update\<close>: the check of the required keys, then the \<^verbatim>\<open>try\<close> block with its
  two handlers: a \<open>ValidationError\<close> is raised again as it is, anything else rolls the
  session back and is wrapped in a \<open>DatabaseError\<close>.
\<close>

definition create_or_update ::
  "pylib \<Rightarrow> zone \<Rightarrow> int \<Rightarrow> (string \<rightharpoonup> pyval) \<Rightarrow> session
     \<Rightarrow> (exception + Inventory \<times> bool) \<times> session" where
  "create_or_update lib tz now data s =
     (let missing = filter (\<lambda>k. data k = None) required in
      if missing \<noteq> []
      then (Inl (ValidationError (Missing_required_fields missing) missing), s)
      else
        (case create_or_update_body lib tz now data s of
           (Inr r, s') \<Rightarrow> (Inr r, s')
         | (Inl e, s') \<Rightarrow>
             (if is_ValidationError e then (Inl e, s')
              else (Inl (DatabaseError ''Failed to create/update inventory'' e),
                    session_rollback s'))))"

text \<open>
  \<^verbatim>\<open>partial_update\<close>.  The statements of its \<^verbatim>\<open>try\<close> block work on the object and on
  the list \<^verbatim>\<open>updated_fields\<close>.
\<close>

definition patch_computer_activation ::
  "pylib \<Rightarrow> zone \<Rightarrow> (string \<rightharpoonup> pyval) \<Rightarrow> Inventory \<times> string list
     \<Rightarrow> exception + Inventory \<times> string list" where
  "patch_computer_activation lib tz data st =
     (if data ''computer_activation'' \<noteq> None
      then map_exn (\<lambda>a. ((fst st)\<lparr>computer_activation := a\<rparr>, snd st @ [''computer_activation'']))
             (bind_exn (subscript data ''computer_activation'') (parse_datetime lib tz))
      else Inr st)"

definition patch_activation_days ::
  "pylib \<Rightarrow> (string \<rightharpoonup> pyval) \<Rightarrow> Inventory \<times> string list
     \<Rightarrow> exception + Inventory \<times> string list" where
  "patch_activation_days lib data st =
     (if data ''activation_days'' \<noteq> None
      then map_exn (\<lambda>n. ((fst st)\<lparr>activation_days := n\<rparr>, snd st @ [''activation_days'']))
             (if dict_get data ''activation_days'' \<noteq> PNone
              then map_exn Some (bind_exn (subscript data ''activation_days'') (py_int lib))
              else Inr None)
      else Inr st)"

definition check_updated_fields ::
  "Inventory \<times> string list \<Rightarrow> exception + Inventory \<times> string list" where
  "check_updated_fields st =
     (if snd st = [] then Inl (ValidationError No_valid_fields_provided []) else Inr st)"

definition stamp_updated_at ::
  "zone \<Rightarrow> int \<Rightarrow> Inventory \<times> string list \<Rightarrow> exception + Inventory \<times> string list" where
  "stamp_updated_at tz now st =
     (if \<exists>field \<in> set (snd st). field \<noteq> ''computer_activation''
      then Inr ((fst st)\<lparr>updated_at := Some (datetime_now tz now)\<rparr>, snd st)
      else Inr st)"

definition partial_update_body ::
  "pylib \<Rightarrow> zone \<Rightarrow> int \<Rightarrow> (string \<rightharpoonup> pyval) \<Rightarrow> Inventory \<Rightarrow> session
     \<Rightarrow> (exception + Inventory) \<times> session" where
  "partial_update_body lib tz now data inventory s =
     (case run_steps [patch_computer_activation lib tz data, patch_activation_days lib data,
                      check_updated_fields, stamp_updated_at tz now] (inventory, []) of
        (Some e, st) \<Rightarrow> (Inl e, session_put s (fst st))
      | (None, st) \<Rightarrow> (Inr (fst st), session_commit (session_put s (fst st))))"

definition partial_update ::
  "pylib \<Rightarrow> zone \<Rightarrow> int \<Rightarrow> string \<Rightarrow> (string \<rightharpoonup> pyval) \<Rightarrow> session
     \<Rightarrow> (exception + Inventory) \<times> session" where
  "partial_update lib tz now k data s =
     (case get_by_id s k of
        Inl e \<Rightarrow> (Inl e, s)
      | Inr inventory \<Rightarrow>
          (case partial_update_body lib tz now data inventory s of
             (Inr r, s') \<Rightarrow> (Inr r, s')
           | (Inl e, s') \<Rightarrow>
               (if is_ValidationError e \<or> is_NotFoundError e then (Inl e, s')
                else (Inl (DatabaseError ''Failed to update inventory'' e),
                      session_rollback s'))))"

section \<open>The metrics engine\<close>

subsection \<open>\<^verbatim>\<open>get_version_distribution\<close>\<close>








subsection \<open>\<^verbatim>\<open>get_age_distribution\<close>\<close>

text \<open>
  The age of one activation date, or \<open>None\<close> where the loop body raises and its handler
  goes on to the next row.  The column is a \<^verbatim>\<open>DateTime\<close>: the object-relational mapper
  hands back \<^verbatim>\<open>datetime\<close> objects, so the branch for a \<^verbatim>\<open>str\<close> is not taken and a
  string is excluded by the type of the field.  The difference of two aware datetimes
  is the difference of their UTC readings, and \<^verbatim>\<open>.days\<close> its whole days, rounded down.

  The division by \<^verbatim>\<open>30.42\<close> is exact here, where Python divides floats: for a whole
  number of days the quotient is never closer to one of the bounds 0, 12, 36, 60, 120
  and 9999 than rounding can move it (the products of the bounds with 30.42 are 0 and
  not whole), so the comparisons with the bounds come out the same.
\<close>

definition months :: "int \<Rightarrow> rat" where
  "months days_diff = of_int days_diff / (3042 / 100)"

definition age_in_months :: "zone \<Rightarrow> int \<Rightarrow> datetime \<Rightarrow> rat option" where
  "age_in_months tz now activation_date =
     (case astimezone_or_localize tz activation_date of
        Inl e \<Rightarrow> None
      | Inr a \<Rightarrow>
          (let days_diff = (utc_us (datetime_now tz now) - utc_us a) div day_us
           in Some (months days_diff)))"

definition ages_in_months :: "zone \<Rightarrow> int \<Rightarrow> Inventory list \<Rightarrow> rat list" where
  "ages_in_months tz now rows =
     List.map_filter
       (\<lambda>comp. case computer_activation comp of
                  None \<Rightarrow> None
                | Some activation_date \<Rightarrow> age_in_months tz now activation_date)
       (filter (\<lambda>comp. computer_activation comp \<noteq> None) rows)"

text \<open>
  The five ranges.  (The labels of the first four ranges have an en dash in the source,
  which is written as a hyphen here.)
\<close>

record age_range =
  r_min :: int
  r_max :: int
  r_label :: string
  r_count :: int

definition ranges :: "age_range list" where
  "ranges =
     [\<lparr>r_min = 0, r_max = 12, r_label = ''0-12'', r_count = 0\<rparr>,
      \<lparr>r_min = 12, r_max = 36, r_label = ''12-36'', r_count = 0\<rparr>,
      \<lparr>r_min = 36, r_max = 60, r_label = ''36-60'', r_count = 0\<rparr>,
      \<lparr>r_min = 60, r_max = 120, r_label = ''60-120'', r_count = 0\<rparr>,
      \<lparr>r_min = 120, r_max = 9999, r_label = ''>120'', r_count = 0\<rparr>]"

text \<open>The inner loop: the first range that holds \<open>m\<close> counts it, and the loop breaks.\<close>

fun count_age :: "rat \<Rightarrow> age_range list \<Rightarrow> age_range list" where
  "count_age m [] = []"
| "count_age m (r # rs) =
     (if of_int (r_min r) \<le> m \<and> m < of_int (r_max r)
      then r\<lparr>r_count := r_count r + 1\<rparr> # rs
      else r # count_age m rs)"

text \<open>The list \<^verbatim>\<open>ranges\<close> after the loop over the ages, and what the function returns of it.\<close>

definition counted_ranges :: "zone \<Rightarrow> int \<Rightarrow> Inventory list \<Rightarrow> age_range list" where
  "counted_ranges tz now rows =
     foldl (\<lambda>rs m. count_age m rs) ranges (ages_in_months tz now rows)"

definition get_age_distribution :: "zone \<Rightarrow> int \<Rightarrow> Inventory list \<Rightarrow> (string \<times> int) list" where
  "get_age_distribution tz now rows =
     map (\<lambda>r. (r_label r, r_count r)) (counted_ranges tz now rows)"

section \<open>The dedup resolver: \<^verbatim>\<open>client/tools/delete_older.py\<close>\<close>

text \<open>\<^verbatim>\<open>_parse_dt\<close>: a value that is not a string has no \<^verbatim>\<open>strip\<close>.\<close>

definition parse_dt :: "pylib \<Rightarrow> pyval \<Rightarrow> exception + datetime option" where
  "parse_dt lib v =
     (if \<not> truthy v then Inr None
      else case v of
        PStr s \<Rightarrow>
          (let t = strip s in
           if t = [] then Inr None else Inr (fromisoformat lib (z_to_offset t)))
      | _ \<Rightarrow> Inl (Builtin AttributeError))"

text \<open>\<^verbatim>\<open>datetime.min\<close>, a naive datetime.\<close>

definition datetime_min :: datetime where
  "datetime_min = \<lparr>wall = 0, tzinfo = None\<rparr>"

text \<open>The sort key \<^verbatim>\<open>_score\<close>.\<close>

definition score :: "pylib \<Rightarrow> (string \<rightharpoonup> pyval) \<Rightarrow> exception + datetime \<times> datetime" where
  "score lib item =
     bind_exn (parse_dt lib (dict_get item ''updated_at'')) (\<lambda>updated.
     bind_exn (parse_dt lib (dict_get item ''created_at'')) (\<lambda>created.
       Inr (case updated of
              Some u \<Rightarrow> u
            | None \<Rightarrow> (case created of Some c \<Rightarrow> c | None \<Rightarrow> datetime_min),
            case created of Some c \<Rightarrow> c | None \<Rightarrow> datetime_min)))"

text \<open>
  Python's comparison of datetimes: two aware ones compare by their UTC readings, two
  naive ones by their wall readings; a naive and an aware one are unequal, and ordering
  them raises \<^verbatim>\<open>TypeError\<close>.  Tuples compare by their first unequal components.
\<close>

definition dt_eq :: "datetime \<Rightarrow> datetime \<Rightarrow> bool" where
  "dt_eq a b = ((tzinfo a = None) = (tzinfo b = None) \<and> utc_us a = utc_us b)"

definition dt_lt :: "datetime \<Rightarrow> datetime \<Rightarrow> exception + bool" where
  "dt_lt a b =
     (if (tzinfo a = None) = (tzinfo b = None) then Inr (utc_us a < utc_us b) else Inl (Builtin TypeError))"

definition key_lt :: "datetime \<times> datetime \<Rightarrow> datetime \<times> datetime \<Rightarrow> exception + bool" where
  "key_lt k1 k2 =
     (if \<not> dt_eq (fst k1) (fst k2) then dt_lt (fst k1) (fst k2)
      else if \<not> dt_eq (snd k1) (snd k2) then dt_lt (snd k1) (snd k2)
      else Inr False)"

definition comparable :: "datetime \<times> datetime \<Rightarrow> datetime \<times> datetime \<Rightarrow> bool" where
  "comparable k1 k2 = (case key_lt k1 k2 of Inl e \<Rightarrow> False | Inr b \<Rightarrow> True)"

text \<open>The keys of all the records, computed before the sort; the first exception is raised.\<close>

fun sequence_exn :: "(exception + 'a) list \<Rightarrow> exception + 'a list" where
  "sequence_exn [] = Inr []"
| "sequence_exn (m # ms) = bind_exn m (\<lambda>x. map_exn (\<lambda>xs. x # xs) (sequence_exn ms))"

text \<open>
  \<^verbatim>\<open>sorted(registros, key=_score, reverse=True)\<close>.  The sort is stable, and with
  \<^verbatim>\<open>reverse=True\<close> it is the reverse of the stable ascending sort of the reversed list.
  It raises the \<^verbatim>\<open>TypeError\<close> of a comparison between a naive and an aware datetime:
  a sort compares every two neighbours of its result, so it raises exactly when two of
  the keys cannot be compared.  Where all keys can be compared, the order of the tuples
  is the lexicographic order of their readings.
\<close>

definition reading :: "datetime \<times> datetime \<Rightarrow> int \<times> int" where
  "reading k = (utc_us (fst k), utc_us (snd k))"

definition ordenar_registros ::
  "pylib \<Rightarrow> (string \<rightharpoonup> pyval) list \<Rightarrow> exception + (string \<rightharpoonup> pyval) list" where
  "ordenar_registros lib registros =
     bind_exn (sequence_exn (map (score lib) registros)) (\<lambda>keys.
       if list_all (\<lambda>k1. list_all (comparable k1) keys) keys
       then Inr (map snd (rev (sort_key (\<lambda>p. reading (fst p)) (rev (zip keys registros)))))
       else Inl (Builtin TypeError))"

text \<open>
  \<^verbatim>\<open>processar\<close>.  The inventory fetched from the API and the outcome of each
  \<^verbatim>\<open>DELETE\<close> request (\<open>None\<close>, or the message of its \<^verbatim>\<open>HTTPError\<close> or \<^verbatim>\<open>URLError\<close>) are
  parameters.  Besides its four results the model returns what the function prints: for
  each duplicated hostname the record kept (\<^verbatim>\<open>Manter\<close>) and the records to delete
  (\<^verbatim>\<open>Apagar\<close>).
\<close>

definition hostname_key :: "(string \<rightharpoonup> pyval) \<Rightarrow> exception + string" where
  "hostname_key item =
     (case py_or (dict_get item ''hostname'') (PStr []) of
        PStr s \<Rightarrow> Inr (strip s)
      | _ \<Rightarrow> Inl (Builtin AttributeError))"

definition add_to_group ::
  "string \<Rightarrow> 'a \<Rightarrow> (string \<times> 'a list) list \<Rightarrow> (string \<times> 'a list) list" where
  "add_to_group h item grupos =
     (if h \<in> fst ` set grupos
      then map (\<lambda>g. if fst g = h then (fst g, snd g @ [item]) else g) grupos
      else grupos @ [(h, [item])])"

fun agrupar ::
  "(string \<rightharpoonup> pyval) list \<Rightarrow> (string \<times> (string \<rightharpoonup> pyval) list) list
     \<Rightarrow> exception + (string \<times> (string \<rightharpoonup> pyval) list) list" where
  "agrupar [] grupos = Inr grupos"
| "agrupar (item # inventarios) grupos =
     bind_exn (hostname_key item) (\<lambda>h.
       if h = [] then agrupar inventarios grupos
       else agrupar inventarios (add_to_group h item grupos))"

record resultado =
  duplicados :: nat
  removidos :: nat
  ignorados :: nat
  erros :: "string list"
  impresso :: "(string \<times> (string \<rightharpoonup> pyval) \<times> (string \<rightharpoonup> pyval) list) list"

fun apagar :: "(pyval \<Rightarrow> string option) \<Rightarrow> bool \<Rightarrow> (string \<rightharpoonup> pyval) list \<Rightarrow> resultado \<Rightarrow> resultado" where
  "apagar delete_inventory dry_run [] res = res"
| "apagar delete_inventory dry_run (registro # rest) res =
     (if dry_run then apagar delete_inventory dry_run rest (res\<lparr>ignorados := ignorados res + 1\<rparr>)
      else
        (case delete_inventory (dict_get registro ''machine_id'') of
           None \<Rightarrow> apagar delete_inventory dry_run rest (res\<lparr>removidos := removidos res + 1\<rparr>)
         | Some msg \<Rightarrow> apagar delete_inventory dry_run rest (res\<lparr>erros := erros res @ [msg]\<rparr>)))"

fun processar_grupos ::
  "pylib \<Rightarrow> (pyval \<Rightarrow> string option) \<Rightarrow> bool \<Rightarrow> (string \<times> (string \<rightharpoonup> pyval) list) list
     \<Rightarrow> resultado \<Rightarrow> exception + resultado" where
  "processar_grupos lib delete_inventory dry_run [] res = Inr res"
| "processar_grupos lib delete_inventory dry_run ((host, registros) # grupos) res =
     (if length registros \<le> 1 then processar_grupos lib delete_inventory dry_run grupos res
      else
        bind_exn (ordenar_registros lib registros) (\<lambda>ordenados.
          case ordenados of
            [] \<Rightarrow> Inl (Builtin IndexError)
          | manter # resto \<Rightarrow>
              bind_exn (subscript manter ''machine_id'') (\<lambda>mid.
                processar_grupos lib delete_inventory dry_run grupos
                  (apagar delete_inventory dry_run resto
                     (res\<lparr>duplicados := duplicados res + 1,
                          impresso := impresso res @ [(host, manter, resto)]\<rparr>)))))"

definition processar ::
  "pylib \<Rightarrow> (pyval \<Rightarrow> string option) \<Rightarrow> bool \<Rightarrow> (string \<rightharpoonup> pyval) list \<Rightarrow> exception + resultado" where
  "processar lib delete_inventory dry_run inventarios =
     bind_exn (agrupar inventarios []) (\<lambda>grupos.
       processar_grupos lib delete_inventory dry_run grupos
         \<lparr>duplicados = 0, removidos = 0, ignorados = 0, erros = [], impresso = []\<rparr>)"

section \<open>A reference instance of the library\<close>

text \<open>
  For evaluating the service on concrete observations, an instance of the library
  interface that follows CPython on the inputs it covers.

  The calendar is the proleptic Gregorian one of \<^verbatim>\<open>datetime\<close>: \<open>ymd2ord\<close> is the ordinal
  of a date (1 for 0001-01-01), \<open>mk_wall\<close> the reading of a date and a time of day.
\<close>

definition is_leap :: "int \<Rightarrow> bool" where
  "is_leap y = (y mod 4 = 0 \<and> (if y mod 100 = 0 then y mod 400 = 0 else True))"

definition days_in_month :: "int \<Rightarrow> int \<Rightarrow> int" where
  "days_in_month y m =
     (if m = 2 then (if is_leap y then 29 else 28)
      else if m = 4 \<or> m = 6 \<or> m = 9 \<or> m = 11 then 30 else 31)"

definition days_before_month :: "int \<Rightarrow> int \<Rightarrow> int" where
  "days_before_month y m = sum_list (map (days_in_month y) [1 .. m - 1])"

definition days_before_year :: "int \<Rightarrow> int" where
  "days_before_year y = (y - 1) * 365 + (y - 1) div 4 - (y - 1) div 100 + (y - 1) div 400"

definition ymd2ord :: "int \<Rightarrow> int \<Rightarrow> int \<Rightarrow> int" where
  "ymd2ord y m d = days_before_year y + days_before_month y m + d"

definition mk_wall :: "int \<Rightarrow> int \<Rightarrow> int \<Rightarrow> int \<Rightarrow> int \<Rightarrow> int \<Rightarrow> int \<Rightarrow> int" where
  "mk_wall y m d hh mi ss us =
     (((ymd2ord y m d - 1) * 24 + hh) * 60 + mi) * 60000000 + ss * 1000000 + us"

text \<open>The constructor \<^verbatim>\<open>datetime(y, m, d, hh, mi, ss, us, tzinfo)\<close>; \<open>None\<close> is its \<^verbatim>\<open>ValueError\<close>.\<close>

definition make_datetime ::
  "int \<Rightarrow> int \<Rightarrow> int \<Rightarrow> int \<Rightarrow> int \<Rightarrow> int \<Rightarrow> int \<Rightarrow> int option \<Rightarrow> datetime option" where
  "make_datetime y m d hh mi ss us tzi =
     (if 1 \<le> y \<and> y \<le> 9999 \<and> 1 \<le> m \<and> m \<le> 12 \<and> 1 \<le> d \<and> d \<le> days_in_month y m
         \<and> 0 \<le> hh \<and> hh < 24 \<and> 0 \<le> mi \<and> mi < 60 \<and> 0 \<le> ss \<and> ss < 60
         \<and> 0 \<le> us \<and> us < 1000000
      then Some \<lparr>wall = mk_wall y m d hh mi ss us, tzinfo = tzi\<rparr>
      else None)"

text \<open>The reading of the epoch, 1970-01-01T00:00:00 (ordinal 719163).\<close>

definition epoch_wall :: int where
  "epoch_wall = 719162 * day_us"

subsection \<open>Numerals\<close>

definition isdigit :: "char \<Rightarrow> bool" where
  "isdigit c = (48 \<le> (of_char c :: nat) \<and> (of_char c :: nat) \<le> 57)"

definition digits_val :: "string \<Rightarrow> int" where
  "digits_val s = foldl (\<lambda>a c. 10 * a + (int (of_char c) - 48)) 0 s"

text \<open>A field of exactly \<open>n\<close> digits.\<close>

definition number :: "nat \<Rightarrow> string \<Rightarrow> int option" where
  "number n s = (if length s = n \<and> list_all isdigit s then Some (digits_val s) else None)"

subsection \<open>\<^verbatim>\<open>datetime.fromisoformat\<close>\<close>

text \<open>
  The format every version of \<^verbatim>\<open>fromisoformat\<close> reads, in the words of its
  documentation: \<^verbatim>\<open>YYYY-MM-DD[*HH[:MM[:SS[.fff[fff]]]][+HH:MM[:SS[.ffffff]]]]\<close>, where
  \<^verbatim>\<open>*\<close> is any single character.  (Later versions of Python read further ISO 8601
  spellings, which this instance takes as not ISO.)
\<close>

definition parse_hh_mm_ss_ff :: "string \<Rightarrow> (int \<times> int \<times> int \<times> int) option" where
  "parse_hh_mm_ss_ff t =
     (let n = length t in
      if n \<notin> {2, 5, 8, 12, 15} then None
      else
        Option.bind (number 2 (take 2 t)) (\<lambda>hh.
        Option.bind (if n < 5 then Some 0
                     else if t ! 2 = CHR '':'' then number 2 (take 2 (drop 3 t)) else None) (\<lambda>mi.
        Option.bind (if n < 8 then Some 0
                     else if t ! 5 = CHR '':'' then number 2 (take 2 (drop 6 t)) else None) (\<lambda>ss.
        Option.bind (if n < 12 then Some 0
                     else if t ! 8 = CHR ''.''
                       then map_option (\<lambda>f. if n = 12 then f * 1000 else f) (number (n - 9) (drop 9 t))
                       else None) (\<lambda>us.
          Some (hh, mi, ss, us))))))"

definition is_sign :: "char \<Rightarrow> bool" where
  "is_sign c = (c = CHR ''+'' \<or> c = CHR ''-'')"

definition parse_isoformat_tz :: "string \<Rightarrow> int option option" where
  "parse_isoformat_tz z =
     (case z of
        [] \<Rightarrow> Some None
      | c # tzstr \<Rightarrow>
          (if length tzstr \<notin> {5, 8, 15} then None
           else
             Option.bind (parse_hh_mm_ss_ff tzstr) (\<lambda>(hh, mi, ss, us).
               let off = (if c = CHR ''-'' then - 1 else 1)
                           * ((hh * 3600 + mi * 60 + ss) * 1000000 + us)
               in if - day_us < off \<and> off < day_us then Some (Some off) else None)))"

definition ref_fromisoformat :: "string \<Rightarrow> datetime option" where
  "ref_fromisoformat s =
     (if length s < 10 \<or> s ! 4 \<noteq> CHR ''-'' \<or> s ! 7 \<noteq> CHR ''-'' then None
      else
        Option.bind (number 4 (take 4 s)) (\<lambda>y.
        Option.bind (number 2 (take 2 (drop 5 s))) (\<lambda>m.
        Option.bind (number 2 (take 2 (drop 8 s))) (\<lambda>d.
          if length s = 10 then make_datetime y m d 0 0 0 0 None
          else
            let tstr = drop 11 s;
                timestr = takeWhile (\<lambda>c. \<not> is_sign c) tstr;
                z = dropWhile (\<lambda>c. \<not> is_sign c) tstr
            in Option.bind (parse_hh_mm_ss_ff timestr) (\<lambda>(hh, mi, ss, us).
               Option.bind (parse_isoformat_tz z) (\<lambda>tzi.
                 make_datetime y m d hh mi ss us tzi))))))"

subsection \<open>\<^verbatim>\<open>datetime.strptime\<close>\<close>

text \<open>
  \<^verbatim>\<open>strptime\<close> turns the format into a regular expression and matches it at the start
  of the text; text left over after the match is an error.  The directives the service
  uses are \<^verbatim>\<open>%Y\<close>, \<^verbatim>\<open>%m\<close> and \<^verbatim>\<open>%d\<close>, with the expressions
  \<^verbatim>\<open>\d\d\d\d\<close>, \<^verbatim>\<open>1[0-2]|0[1-9]|[1-9]\<close> and \<^verbatim>\<open>3[0-1]|[1-2]\d|0[1-9]|[1-9]| [1-9]\<close>;
  any other character of the format stands for itself.  \<open>alternatives\<close> lists, in the
  order the expression tries them, the ways a directive can match the start of the text.
\<close>

definition in_class :: "string \<Rightarrow> char \<Rightarrow> bool" where
  "in_class cs c = (c \<in> set cs)"

text \<open>One alternative of two characters from the classes \<open>a\<close> and \<open>b\<close>, or of one from \<open>a\<close>.\<close>

definition two_chars :: "string \<Rightarrow> string \<Rightarrow> string \<Rightarrow> (int \<times> string) list" where
  "two_chars a b s =
     (case s of
        x # y # rest \<Rightarrow>
          (if in_class a x \<and> in_class b y then [(digits_val (filter isdigit [x, y]), rest)] else [])
      | _ \<Rightarrow> [])"

definition one_char :: "string \<Rightarrow> string \<Rightarrow> (int \<times> string) list" where
  "one_char a s =
     (case s of
        x # rest \<Rightarrow> (if in_class a x then [(digits_val [x], rest)] else [])
      | _ \<Rightarrow> [])"

definition alternatives :: "char \<Rightarrow> string \<Rightarrow> (int \<times> string) list" where
  "alternatives c s =
     (if c = CHR ''Y'' then
        (if 4 \<le> length s \<and> list_all isdigit (take 4 s) then [(digits_val (take 4 s), drop 4 s)] else [])
      else if c = CHR ''m'' then
        two_chars ''1'' ''012'' s @ two_chars ''0'' ''123456789'' s @ one_char ''123456789'' s
      else if c = CHR ''d'' then
        two_chars ''3'' ''01'' s @ two_chars ''12'' ''0123456789'' s @ two_chars ''0'' ''123456789'' s
          @ one_char ''123456789'' s @ two_chars '' '' ''123456789'' s
      else [])"

text \<open>
  All matches of a format, in the order of the search, each with the fields found (year,
  month, day, as the defaults 1900, 1, 1 where the format has no directive for them) and
  the text left over.
\<close>

fun matches :: "string \<Rightarrow> string \<Rightarrow> int \<times> int \<times> int \<Rightarrow> ((int \<times> int \<times> int) \<times> string) list" where
  "matches [] s acc = [(acc, s)]"
| "matches (f # fmt) s acc =
     (if f = CHR ''%'' then
        (case fmt of
           [] \<Rightarrow> []
         | c # fmt' \<Rightarrow>
             concat (map (\<lambda>(v, rest).
                       matches fmt' rest
                         (case acc of (y, m, d) \<Rightarrow>
                            if c = CHR ''Y'' then (v, m, d)
                            else if c = CHR ''m'' then (y, v, d) else (y, m, v)))
                     (alternatives c s)))
      else
        (case s of
           [] \<Rightarrow> []
         | x # rest \<Rightarrow> if x = f then matches fmt rest acc else []))"

definition ref_strptime :: "string \<Rightarrow> string \<Rightarrow> datetime option" where
  "ref_strptime s fmt =
     (case matches fmt s (1900, 1, 1) of
        [] \<Rightarrow> None
      | ((y, m, d), rest) # _ \<Rightarrow> if rest = [] then make_datetime y m d 0 0 0 0 None else None)"

subsection \<open>Numbers\<close>

text \<open>
  \<^verbatim>\<open>int(s)\<close> and \<^verbatim>\<open>float(s)\<close> on a plain decimal integer with an optional sign and
  surrounding white space, which is what the instance reads; \<^verbatim>\<open>float(n)\<close> rounds an
  integer of more than 53 bits to the nearest double, ties to even.
\<close>

definition ref_int_str :: "string \<Rightarrow> int option" where
  "ref_int_str s =
     (let t = strip s;
          u = (if t \<noteq> [] \<and> is_sign (hd t) then tl t else t)
      in if u \<noteq> [] \<and> list_all isdigit u
         then Some ((if t \<noteq> [] \<and> hd t = CHR ''-'' then - 1 else 1) * digits_val u)
         else None)"

function bit_length :: "int \<Rightarrow> nat" where
  "bit_length n = (if n \<le> 0 then 0 else Suc (bit_length (n div 2)))"
  by pat_completeness auto
termination
  by (relation "measure nat") auto

definition round_half_even :: "int \<Rightarrow> int \<Rightarrow> int" where
  "round_half_even a b =
     (let q = a div b; r = a mod b
      in if b < 2 * r \<or> (2 * r = b \<and> odd q) then q + 1 else q)"

definition ref_float_int :: "int \<Rightarrow> builtin_error + pyfloat" where
  "ref_float_int n =
     (let b = bit_length \<bar>n\<bar> in
      if b \<le> 53 then Inr (Fin (of_int n))
      else
        let m = round_half_even \<bar>n\<bar> (2 ^ (b - 53)) * 2 ^ (b - 53)
        in if 2 ^ 1024 \<le> m then Inl OverflowError else Inr (Fin (of_int (sgn n * m))))"

definition ref_float_str :: "string \<Rightarrow> pyfloat option" where
  "ref_float_str s =
     (case ref_int_str s of
        None \<Rightarrow> None
      | Some n \<Rightarrow>
          (case ref_float_int n of
             Inr f \<Rightarrow> Some f
           | Inl e \<Rightarrow> Some (if 0 < n then PosInf else NegInf)))"

text \<open>
  \<^verbatim>\<open>datetime.fromtimestamp\<close>: seconds since the epoch, rounded to the microsecond (ties to
  even).  A number outside the years 1 to 9999 raises \<^verbatim>\<open>ValueError\<close>, \<^verbatim>\<open>OverflowError\<close>
  or \<^verbatim>\<open>OSError\<close>, depending on its size and on the platform; the instance has
  \<^verbatim>\<open>ValueError\<close>.
\<close>

definition utc_of_micros :: "int \<Rightarrow> builtin_error + int" where
  "utc_of_micros us =
     (if in_range (epoch_wall + us) then Inr (epoch_wall + us) else Inl ValueError)"

fun ref_timestamp_utc :: "pyval \<Rightarrow> builtin_error + int" where
  "ref_timestamp_utc (PBool b) = utc_of_micros (if b then 1000000 else 0)"
| "ref_timestamp_utc (PInt n) = utc_of_micros (n * 1000000)"
| "ref_timestamp_utc (PFloat (Fin q)) =
     utc_of_micros (round_half_even (fst (quotient_of (q * 1000000))) (snd (quotient_of (q * 1000000))))"
| "ref_timestamp_utc (PFloat NaN) = Inl ValueError"
| "ref_timestamp_utc (PFloat f) = Inl OverflowError"
| "ref_timestamp_utc v = Inl TypeError"

definition ref_lib :: pylib where
  "ref_lib =
     \<lparr>fromisoformat = ref_fromisoformat, strptime = ref_strptime,
      float_str = ref_float_str, int_str = ref_int_str,
      float_int = ref_float_int, timestamp_utc = ref_timestamp_utc\<rparr>"

section \<open>Sample data\<close>

text \<open>
  A zone four hours behind UTC the whole year (as the default zone,
  \<^verbatim>\<open>America/Cuiaba\<close>, has been since 2019), a clock reading, an empty session and an
  observation of a machine.
\<close>

definition utc_minus_4 :: zone where
  "utc_minus_4 = fixed_zone (- 4 * hour_us)"

definition sample_now :: int where
  "sample_now = mk_wall 2024 6 1 12 0 0 0"

definition empty_session :: session where
  "empty_session = \<lparr>table = Map.empty, dirty = Map.empty\<rparr>"

definition sample_observation :: "string \<rightharpoonup> pyval" where
  "sample_observation =
     [''machine_id'' \<mapsto> PStr ''m1'', ''hostname'' \<mapsto> PStr ''pc-01'', ''ip'' \<mapsto> PStr ''10.0.0.7'',
      ''os'' \<mapsto> PStr ''Linux'', ''cpu_percent'' \<mapsto> PFloat (Fin (25 / 2)),
      ''memory_total_mb'' \<mapsto> PInt 8192]"

section \<open>Predicates of the statements\<close>

text \<open>One of the five required fields that are coerced is \<^verbatim>\<open>None\<close>.\<close>

definition has_null :: "(string \<rightharpoonup> pyval) \<Rightarrow> bool" where
  "has_null data =
     (data ''hostname'' = Some PNone \<or> data ''ip'' = Some PNone \<or> data ''os'' = Some PNone
      \<or> data ''cpu_percent'' = Some PNone \<or> data ''memory_total_mb'' = Some PNone)"

definition succeeds :: "exception + 'a \<Rightarrow> bool" where
  "succeeds m = (case m of Inl e \<Rightarrow> False | Inr x \<Rightarrow> True)"


text \<open>A record as an earlier observation left it, and a session whose table holds it.\<close>

definition sample_record :: Inventory where
  "sample_record =
     \<lparr>machine_id = ''m1'', hostname = ''pc-01'', ip = ''10.0.0.7'', os = ''Linux'',
      os_version = Some ''6.1'', cpu_percent = Fin (25 / 2), memory_total_mb = 8192,
      memory_used_mb = Some 2048, computer_model = None, computer_activation = None,
      activation_days = None, created_at = datetime_now utc_minus_4 (mk_wall 2024 5 1 9 30 0 0),
      updated_at = None\<rparr>"

definition sample_session :: session where
  "sample_session = \<lparr>table = [''m1'' \<mapsto> sample_record], dirty = Map.empty\<rparr>"



text \<open>No instant of a record, of a table, of a session is naive.\<close>

definition aware :: "datetime option \<Rightarrow> bool" where
  "aware od = (case od of None \<Rightarrow> True | Some d \<Rightarrow> tzinfo d \<noteq> None)"



text \<open>A range holds an age; the bounds of a list of ranges.\<close>

definition holds :: "rat \<Rightarrow> age_range \<Rightarrow> bool" where
  "holds m r = (of_int (r_min r) \<le> m \<and> m < of_int (r_max r))"

definition bounds :: "age_range list \<Rightarrow> (int \<times> int \<times> string) list" where
  "bounds rs = map (\<lambda>r. (r_min r, r_max r, r_label r)) rs"

text \<open>One more in the count of the range at index \<open>i\<close>.\<close>

definition add_one :: "nat \<Rightarrow> age_range list \<Rightarrow> age_range list" where
  "add_one i rs = rs[i := (rs ! i)\<lparr>r_count := r_count (rs ! i) + 1\<rparr>]"

text \<open>The same on the list that \<open>get_age_distribution\<close> returns.\<close>

definition bump :: "nat \<Rightarrow> (string \<times> int) list \<Rightarrow> (string \<times> int) list" where
  "bump i xs = xs[i := (fst (xs ! i), snd (xs ! i) + 1)]"

text \<open>
  Records whose activation dates are the day after the sample clock reading, and 365
  days before it.
\<close>

definition year_old_record :: Inventory where
  "year_old_record =
     sample_record\<lparr>computer_activation :=
       Some \<lparr>wall = sample_now - 365 * day_us - 4 * hour_us, tzinfo = Some (- 4 * hour_us)\<rparr>\<rparr>"


definition future_record :: Inventory where
  "future_record =
     sample_record\<lparr>computer_activation := Some \<lparr>wall = sample_now + day_us, tzinfo = Some 0\<rparr>\<rparr>"




text \<open>A zone eleven hours behind UTC the whole year (as \<^verbatim>\<open>Pacific/Pago_Pago\<close> is).\<close>

definition utc_minus_11 :: zone where
  "utc_minus_11 = fixed_zone (- 11 * hour_us)"

text \<open>
  Three records of the API that share the hostname \<open>H\<close>: one updated on 1 March, one
  never updated and created on 1 February, one updated on 15 January.
\<close>

definition record_t3 :: "string \<rightharpoonup> pyval" where
  "record_t3 =
     [''machine_id'' \<mapsto> PStr ''m3'', ''hostname'' \<mapsto> PStr ''H'',
      ''updated_at'' \<mapsto> PStr ''2024-03-01T10:00:00-04:00'',
      ''created_at'' \<mapsto> PStr ''2024-01-01T10:00:00-04:00'']"

definition record_t1 :: "string \<rightharpoonup> pyval" where
  "record_t1 =
     [''machine_id'' \<mapsto> PStr ''m1'', ''hostname'' \<mapsto> PStr ''H'', ''updated_at'' \<mapsto> PNone,
      ''created_at'' \<mapsto> PStr ''2024-02-01T10:00:00-04:00'']"

definition record_t2 :: "string \<rightharpoonup> pyval" where
  "record_t2 =
     [''machine_id'' \<mapsto> PStr ''m2'', ''hostname'' \<mapsto> PStr ''H'',
      ''updated_at'' \<mapsto> PStr ''2024-01-15T10:00:00-04:00'',
      ''created_at'' \<mapsto> PStr ''2024-01-10T10:00:00-04:00'']"

section \<open>Auxiliary facts\<close>

lemma bind_exn_simps [simp]:
  "bind_exn (Inl e) f = Inl e" "bind_exn (Inr x) f = f x"
  by (simp_all add: bind_exn_def)

lemma map_exn_simps [simp]:
  "map_exn g (Inl e) = Inl e" "map_exn g (Inr x) = Inr (g x)"
  by (simp_all add: map_exn_def)

lemma raise_builtin_simps [simp]:
  "raise_builtin (Inl b) = Inl (Builtin b)" "raise_builtin (Inr x) = Inr x"
  by (simp_all add: raise_builtin_def)

lemma map_exn_Inl_iff: "map_exn g m = Inl e \<longleftrightarrow> m = Inl e"
  by (cases m) simp_all

lemma map_exn_Inr_iff: "map_exn g m = Inr y \<longleftrightarrow> (\<exists>x. m = Inr x \<and> y = g x)"
  by (cases m) auto

lemma bind_exn_Inl_iff:
  "bind_exn m f = Inl e \<longleftrightarrow> m = Inl e \<or> (\<exists>x. m = Inr x \<and> f x = Inl e)"
  by (cases m) simp_all

lemma bind_exn_Inr_iff:
  "bind_exn m f = Inr y \<longleftrightarrow> (\<exists>x. m = Inr x \<and> f x = Inr y)"
  by (cases m) simp_all

subsection \<open>Which exceptions the coercions and the normalizer raise\<close>

lemma slice_to_error: "slice_to n v = Inl e \<Longrightarrow> e = Builtin TypeError"
  by (cases v) simp_all

lemma py_float_error: "py_float lib v = Inl e \<Longrightarrow> \<exists>b. e = Builtin b"
  by (cases v) (auto simp: raise_builtin_def split: sum.splits option.splits)

lemma py_int_error: "py_int lib v = Inl e \<Longrightarrow> \<exists>b. e = Builtin b"
  by (cases "(lib, v)" rule: py_int.cases) (auto split: option.splits)

lemma subscript_error: "subscript d k = Inl e \<Longrightarrow> e = Builtin KeyError"
  by (auto simp: subscript_def split: option.splits)

lemma fromutc_error: "fromutc tz u = Inl e \<Longrightarrow> e = Builtin OverflowError"
  by (auto simp: fromutc_def Let_def split: if_splits)

lemma astimezone_or_localize_error:
  "astimezone_or_localize tz d = Inl e \<Longrightarrow> e = Builtin OverflowError"
  by (auto simp: astimezone_or_localize_def astimezone_def split: option.splits if_splits
      dest: fromutc_error)

lemma fromtimestamp_error: "fromtimestamp lib tz v = Inl e \<Longrightarrow> \<exists>b. e = Builtin b"
  by (auto simp: fromtimestamp_def bind_exn_Inl_iff raise_builtin_def
      split: sum.splits dest: fromutc_error)

lemma parse_string_error:
  "parse_string lib tz value s = Inl e \<Longrightarrow>
     e = ValidationError (Invalid_datetime_format value) [] \<or> e = Builtin OverflowError"
  by (auto simp: parse_string_def Let_def map_exn_Inl_iff
      split: if_splits option.splits dest: astimezone_or_localize_error)

lemma parse_datetime_error:
  "parse_datetime lib tz v = Inl e \<Longrightarrow>
     e = ValidationError (Invalid_datetime_format v) [] \<or> (\<exists>b. e = Builtin b)"
  by (cases v)
     (auto simp: map_exn_Inl_iff split: if_splits
       dest: astimezone_or_localize_error fromtimestamp_error parse_string_error)

subsection \<open>Failures of \<^verbatim>\<open>create_or_update\<close>\<close>

lemma run_steps_append:
  "run_steps (fs @ gs) x =
     (case run_steps fs x of (Some e, y) \<Rightarrow> (Some e, y) | (None, y) \<Rightarrow> run_steps gs y)"
  by (induction fs arbitrary: x) (auto split: sum.splits)

lemma hostname_of_error: "hostname_of data = Inl e \<Longrightarrow> \<exists>b. e = Builtin b"
  by (auto simp: hostname_of_def bind_exn_Inl_iff dest: subscript_error slice_to_error)

lemma ip_of_error: "ip_of data = Inl e \<Longrightarrow> \<exists>b. e = Builtin b"
  by (auto simp: ip_of_def bind_exn_Inl_iff dest: subscript_error slice_to_error)

lemma os_of_error: "os_of data = Inl e \<Longrightarrow> \<exists>b. e = Builtin b"
  by (auto simp: os_of_def bind_exn_Inl_iff dest: subscript_error slice_to_error)

lemma os_version_of_error: "os_version_of data = Inl e \<Longrightarrow> \<exists>b. e = Builtin b"
  by (auto simp: os_version_of_def map_exn_Inl_iff dest: slice_to_error)

lemma cpu_percent_of_error: "cpu_percent_of lib data = Inl e \<Longrightarrow> \<exists>b. e = Builtin b"
  by (auto simp: cpu_percent_of_def bind_exn_Inl_iff dest: subscript_error py_float_error)

lemma memory_total_mb_of_error: "memory_total_mb_of lib data = Inl e \<Longrightarrow> \<exists>b. e = Builtin b"
  by (auto simp: memory_total_mb_of_def bind_exn_Inl_iff dest: subscript_error py_int_error)

lemma memory_used_mb_of_error: "memory_used_mb_of lib data = Inl e \<Longrightarrow> \<exists>b. e = Builtin b"
  by (auto simp: memory_used_mb_of_def map_exn_Inl_iff dest: py_int_error)

lemma computer_model_of_error: "computer_model_of data = Inl e \<Longrightarrow> \<exists>b. e = Builtin b"
  by (auto simp: computer_model_of_def map_exn_Inl_iff split: if_splits dest: slice_to_error)

lemmas core_errors =
  hostname_of_error ip_of_error os_of_error os_version_of_error cpu_percent_of_error
  memory_total_mb_of_error memory_used_mb_of_error computer_model_of_error

lemma has_null_fails:
  assumes "has_null data"
  shows "(\<exists>e. hostname_of data = Inl e) \<or> (\<exists>e. ip_of data = Inl e) \<or> (\<exists>e. os_of data = Inl e)
         \<or> (\<exists>e. cpu_percent_of lib data = Inl e) \<or> (\<exists>e. memory_total_mb_of lib data = Inl e)"
  using assms
  by (auto simp: has_null_def hostname_of_def ip_of_def os_of_def cpu_percent_of_def
      memory_total_mb_of_def subscript_def)

lemma core_steps_error:
  "run_steps (core_steps lib data) x = (Some e, y) \<Longrightarrow> \<exists>b. e = Builtin b"
  by (auto simp: core_steps_def map_exn_def split: sum.splits dest: core_errors)

lemma core_steps_null:
  assumes "has_null data"
  shows "\<exists>e y. run_steps (core_steps lib data) x = (Some e, y)"
  using has_null_fails [OF assms, of lib]
  by (auto simp: core_steps_def map_exn_def split: sum.splits)

lemma new_inventory_error:
  "new_inventory lib tz now data k = Inl e \<Longrightarrow> \<exists>b. e = Builtin b"
  by (auto simp: new_inventory_def bind_exn_Inl_iff dest: core_errors)

lemma new_inventory_null:
  assumes "has_null data"
  shows "\<exists>e. new_inventory lib tz now data k = Inl e"
  using has_null_fails [OF assms, of lib]
  by (auto simp: new_inventory_def bind_exn_def split: sum.splits)


lemma set_computer_activation_error:
  "set_computer_activation lib tz data x = Inl e \<Longrightarrow>
     (\<exists>v. e = ValidationError (Invalid_datetime_format v) []) \<or> (\<exists>b. e = Builtin b)"
  by (auto simp: set_computer_activation_def map_exn_Inl_iff bind_exn_Inl_iff
      split: if_splits dest: subscript_error parse_datetime_error)

lemma set_activation_days_error:
  "set_activation_days lib data x = Inl e \<Longrightarrow> \<exists>b. e = Builtin b"
  by (auto simp: set_activation_days_def map_exn_Inl_iff bind_exn_Inl_iff
      split: if_splits dest: subscript_error py_int_error)

lemma optional_steps_error:
  "run_steps (optional_steps lib tz data) x = (Some e, y) \<Longrightarrow>
     (\<exists>v. e = ValidationError (Invalid_datetime_format v) []) \<or> (\<exists>b. e = Builtin b)"
  by (auto simp: optional_steps_def split: sum.splits
      dest: set_computer_activation_error set_activation_days_error)

lemma update_existing_error:
  assumes "update_existing lib tz now data existing s = (Inl e, s')"
  shows "(\<exists>v. e = ValidationError (Invalid_datetime_format v) []) \<or> (\<exists>b. e = Builtin b)"
  using assms
  by (auto simp: update_existing_def run_steps_append Let_def
      split: prod.splits option.splits dest: core_steps_error optional_steps_error)

lemma create_new_error:
  assumes "create_new lib tz now data k s = (Inl e, s')"
  shows "(\<exists>v. e = ValidationError (Invalid_datetime_format v) []) \<or> (\<exists>b. e = Builtin b)"
  using assms
  by (auto simp: create_new_def split: sum.splits prod.splits option.splits
      dest: new_inventory_error optional_steps_error)

lemma create_or_update_body_error:
  assumes "create_or_update_body lib tz now data s = (Inl e, s')"
  shows "(\<exists>v. e = ValidationError (Invalid_datetime_format v) []) \<or> (\<exists>b. e = Builtin b)"
  using assms
  by (auto simp: create_or_update_body_def split: option.splits pyval.splits
      dest: update_existing_error create_new_error)

lemma session_rollback_put [simp]: "session_rollback (session_put s x) = session_rollback s"
  by (simp add: session_rollback_def session_put_def)

lemma update_existing_null:
  assumes "has_null data"
  shows "\<exists>b y. update_existing lib tz now data existing s = (Inl (Builtin b), session_put s y)"
proof -
  obtain e y where r: "run_steps (core_steps lib data) existing = (Some e, y)"
    using core_steps_null [OF assms] by blast
  then obtain b where "e = Builtin b"
    using core_steps_error by blast
  with r show ?thesis
    by (auto simp: update_existing_def run_steps_append)
qed

lemma create_new_null:
  assumes "has_null data"
  shows "\<exists>b. create_new lib tz now data k s = (Inl (Builtin b), s)"
proof -
  obtain e where r: "new_inventory lib tz now data k = Inl e"
    using new_inventory_null [OF assms] by blast
  then obtain b where "e = Builtin b"
    using new_inventory_error by blast
  with r show ?thesis
    by (simp add: create_new_def)
qed

subsection \<open>Observations that can be coerced\<close>

lemma succeeds_iff: "succeeds m \<longleftrightarrow> (\<exists>x. m = Inr x)"
  by (cases m) (simp_all add: succeeds_def)













subsection \<open>The statements of \<^verbatim>\<open>partial_update\<close>\<close>

lemma patch_computer_activation_ok:
  assumes "succeeds (parse_datetime lib tz (dict_get data ''computer_activation''))"
  shows "\<exists>a. patch_computer_activation lib tz data (x, []) =
           Inr (x\<lparr>computer_activation := a\<rparr>,
                if data ''computer_activation'' = None then [] else [''computer_activation''])"
proof (cases "data ''computer_activation''")
  case None
  then show ?thesis
    by (intro exI [of _ "computer_activation x"]) (simp add: patch_computer_activation_def)
next
  case (Some v)
  with assms obtain a where "parse_datetime lib tz v = Inr a"
    by (auto simp: succeeds_iff dict_get_def)
  with Some show ?thesis
    by (auto simp: patch_computer_activation_def subscript_def)
qed

lemma patch_activation_days_ok:
  assumes "dict_get data ''activation_days'' = PNone
           \<or> succeeds (py_int lib (dict_get data ''activation_days''))"
  shows "\<exists>d. patch_activation_days lib data (x, fs) =
           Inr (x\<lparr>activation_days := d\<rparr>,
                if data ''activation_days'' = None then fs else fs @ [''activation_days''])"
proof (cases "data ''activation_days''")
  case None
  then show ?thesis
    by (intro exI [of _ "activation_days x"]) (simp add: patch_activation_days_def)
next
  case (Some v)
  show ?thesis
  proof (cases "v = PNone")
    case True
    with Some show ?thesis
      by (auto simp: patch_activation_days_def dict_get_def)
  next
    case False
    with Some assms obtain n where "py_int lib v = Inr n"
      by (auto simp: succeeds_iff dict_get_def)
    with Some False show ?thesis
      by (auto simp: patch_activation_days_def dict_get_def subscript_def)
  qed
qed

subsection \<open>Instants in the zone\<close>


























subsection \<open>Sessions without naive instants\<close>




















subsection \<open>Counting ages\<close>

lemma holds_bounds: "bounds [r] = bounds [r'] \<Longrightarrow> holds m r = holds m r'"
  by (simp add: bounds_def holds_def)

lemma bounds_count_age [simp]: "bounds (count_age m rs) = bounds rs"
  by (induction rs) (simp_all add: bounds_def)

lemma bounds_foldl [simp]: "bounds (foldl (\<lambda>rs m. count_age m rs) rs ms) = bounds rs"
  by (induction ms arbitrary: rs) simp_all

lemma length_count_age [simp]: "length (count_age m rs) = length rs"
  by (induction rs) simp_all

lemma count_age_commute: "count_age m (count_age m' rs) = count_age m' (count_age m rs)"
  by (induction rs) simp_all

lemma foldl_count_age:
  "foldl (\<lambda>rs m. count_age m rs) (count_age m rs) ms
     = count_age m (foldl (\<lambda>rs m. count_age m rs) rs ms)"
proof (induction ms arbitrary: rs)
  case Nil
  show ?case by simp
next
  case (Cons m' ms)
  have "foldl (\<lambda>rs m. count_age m rs) (count_age m rs) (m' # ms)
          = foldl (\<lambda>rs m. count_age m rs) (count_age m (count_age m' rs)) ms"
    by (simp add: count_age_commute)
  also have "\<dots> = count_age m (foldl (\<lambda>rs m. count_age m rs) (count_age m' rs) ms)"
    by (rule Cons.IH)
  finally show ?case by simp
qed

lemma foldl_count_age_middle:
  "foldl (\<lambda>rs m. count_age m rs) rs (ms1 @ m # ms2)
     = count_age m (foldl (\<lambda>rs m. count_age m rs) rs (ms1 @ ms2))"
  by (simp add: foldl_count_age)

lemma sum_count_age:
  "sum_list (map r_count (count_age m rs))
     = sum_list (map r_count rs) + (if list_ex (holds m) rs then 1 else 0)"
  by (induction rs) (simp_all add: holds_def)

lemma list_ex_holds_bounds: "bounds rs = bounds rs' \<Longrightarrow> list_ex (holds m) rs = list_ex (holds m) rs'"
proof (induction rs arbitrary: rs')
  case Nil
  then show ?case by (simp add: bounds_def)
next
  case (Cons r rs)
  then obtain r' rs'' where rs': "rs' = r' # rs''"
    by (cases rs') (simp_all add: bounds_def)
  with Cons.prems have "bounds [r] = bounds [r']" "bounds rs = bounds rs''"
    by (simp_all add: bounds_def)
  with Cons.IH [of rs''] holds_bounds [of r r' m] rs' show ?case
    by simp
qed

lemma sum_foldl_count_age:
  "sum_list (map r_count (foldl (\<lambda>rs m. count_age m rs) rs ms))
     = sum_list (map r_count rs) + int (length (filter (\<lambda>m. list_ex (holds m) rs) ms))"
proof (induction ms arbitrary: rs)
  case Nil
  show ?case by simp
next
  case (Cons m ms)
  have "list_ex (holds m') (count_age m rs) = list_ex (holds m') rs" for m'
    by (rule list_ex_holds_bounds) simp
  with Cons.IH [of "count_age m rs"] show ?case
    by (simp add: sum_count_age)
qed

lemma ranges_hold: "list_ex (holds m) ranges \<longleftrightarrow> 0 \<le> m \<and> m < 9999"
  by (auto simp: ranges_def holds_def)

lemma ranges_hold_once:
  "length (filter (holds m) ranges) = (if 0 \<le> m \<and> m < 9999 then 1 else 0)"
  by (auto simp: ranges_def holds_def)


lemma utc_us_datetime_now: "utc_us (datetime_now tz now) = now"
  by (simp add: utc_us_def datetime_now_def)

lemma ages_in_months_append:
  "ages_in_months tz now (rows1 @ rows2) = ages_in_months tz now rows1 @ ages_in_months tz now rows2"
  by (simp add: ages_in_months_def List.map_filter_def)

lemma ages_in_months_single:
  assumes "computer_activation machine = Some a" and "astimezone_or_localize tz a = Inr a'"
  shows "ages_in_months tz now [machine] = [months ((now - utc_us a') div day_us)]"
  using assms
  by (simp add: ages_in_months_def List.map_filter_def age_in_months_def utc_us_datetime_now)

lemma counted_ranges_middle:
  assumes "computer_activation machine = Some a" and "astimezone_or_localize tz a = Inr a'"
  shows "counted_ranges tz now (rows1 @ machine # rows2)
           = count_age (months ((now - utc_us a') div day_us))
               (counted_ranges tz now (rows1 @ rows2))"
proof -
  have "ages_in_months tz now (rows1 @ machine # rows2)
          = ages_in_months tz now rows1
              @ months ((now - utc_us a') div day_us) # ages_in_months tz now rows2"
    using ages_in_months_append [of tz now rows1 "[machine] @ rows2"]
      ages_in_months_append [of tz now "[machine]" rows2] ages_in_months_single [OF assms, of now]
    by simp
  then show ?thesis
    by (simp add: counted_ranges_def foldl_count_age ages_in_months_append)
qed

lemma bounds_counted_ranges: "bounds (counted_ranges tz now rows) = bounds ranges"
  by (simp add: counted_ranges_def)

lemma count_age_ranges:
  assumes "bounds rs = bounds ranges"
  shows "count_age m rs =
           (if 0 \<le> m \<and> m < 12 then add_one 0 rs
            else if 12 \<le> m \<and> m < 36 then add_one 1 rs
            else if 36 \<le> m \<and> m < 60 then add_one 2 rs
            else if 60 \<le> m \<and> m < 120 then add_one 3 rs
            else if 120 \<le> m \<and> m < 9999 then add_one 4 rs
            else rs)"
proof -
  from assms obtain t0 t1 t2 t3 t4 where rs: "rs = [t0, t1, t2, t3, t4]"
    and b: "r_min t0 = 0" "r_max t0 = 12" "r_min t1 = 12" "r_max t1 = 36"
      "r_min t2 = 36" "r_max t2 = 60" "r_min t3 = 60" "r_max t3 = 120"
      "r_min t4 = 120" "r_max t4 = 9999"
    by (auto simp: bounds_def ranges_def map_eq_Cons_conv)
  show ?thesis
    unfolding rs by (simp add: b add_one_def)
qed

lemma months_bounds:
  "(0 \<le> months d) = (0 \<le> d)"
  "(months d < of_int k) = (100 * d < 3042 * k)"
  "(of_int k \<le> months d) = (3042 * k \<le> 100 * d)"
proof -
  show "(0 \<le> months d) = (0 \<le> d)"
    by (simp add: months_def zero_le_divide_iff)
  have "(months d < of_int k) = ((of_int d :: rat) * 100 < of_int k * 3042)"
    by (simp add: months_def field_simps)
  also have "\<dots> = ((of_int (d * 100) :: rat) < of_int (k * 3042))"
    by simp
  also have "\<dots> = (d * 100 < k * 3042)"
    by (simp only: of_int_less_iff)
  finally show "(months d < of_int k) = (100 * d < 3042 * k)"
    by (simp add: mult.commute)
  have "(of_int k \<le> months d) = (of_int k * 3042 \<le> (of_int d :: rat) * 100)"
    by (simp add: months_def field_simps)
  also have "\<dots> = ((of_int (k * 3042) :: rat) \<le> of_int (d * 100))"
    by simp
  also have "\<dots> = (k * 3042 \<le> d * 100)"
    by (simp only: of_int_le_iff)
  finally show "(of_int k \<le> months d) = (3042 * k \<le> 100 * d)"
    by (simp add: mult.commute)
qed


lemma map_add_one:
  assumes "i < length rs"
  shows "map (\<lambda>r. (r_label r, r_count r)) (add_one i rs)
           = bump i (map (\<lambda>r. (r_label r, r_count r)) rs)"
  using assms by (simp add: add_one_def bump_def map_update)

lemma length_counted_ranges: "length (counted_ranges tz now rows) = 5"
proof -
  have "length (bounds (counted_ranges tz now rows)) = length (bounds ranges)"
    by (simp only: bounds_counted_ranges)
  then show ?thesis
    by (simp add: bounds_def ranges_def)
qed

lemma labels_counted_ranges:
  "map fst (get_age_distribution tz now rows) = [''0-12'', ''12-36'', ''36-60'', ''60-120'', ''>120'']"
proof -
  have "map fst (get_age_distribution tz now rows)
          = map (\<lambda>b. snd (snd b)) (bounds (counted_ranges tz now rows))"
    by (simp add: get_age_distribution_def bounds_def comp_def)
  also have "\<dots> = map (\<lambda>b. snd (snd b)) (bounds ranges)"
    by (simp only: bounds_counted_ranges)
  finally show ?thesis
    by (simp add: bounds_def ranges_def)
qed

subsection \<open>The version distribution\<close>







subsection \<open>The order of the normalizer's attempts\<close>

lemma parse_datetime_iso:
  assumes "strip s \<noteq> []" and "fromisoformat lib (z_to_offset (strip s)) = Some dt"
  shows "parse_datetime lib tz (PStr s) = map_exn Some (astimezone_or_localize tz dt)"
proof -
  from assms(1) have "s \<noteq> []"
    by (auto simp: strip_def)
  with assms show ?thesis
    by (simp add: parse_string_def Let_def)
qed

lemma parse_datetime_fallback:
  assumes "strip s \<noteq> []" and "fromisoformat lib (z_to_offset (strip s)) = None"
  shows "parse_datetime lib tz (PStr s) =
           (case try_formats lib tz (z_to_offset (strip s)) [''%Y-%m-%d'', ''%d/%m/%Y''] of
              Some dt \<Rightarrow> Inr (Some dt)
            | None \<Rightarrow> Inl (ValidationError (Invalid_datetime_format (PStr s)) []))"
proof -
  from assms(1) have "s \<noteq> []"
    by (auto simp: strip_def)
  with assms show ?thesis
    by (simp add: parse_string_def Let_def)
qed

lemma ref_lib_fields:
  "fromisoformat ref_lib = ref_fromisoformat" "strptime ref_lib = ref_strptime"
  by (simp_all add: ref_lib_def)

lemma example_strings:
  "strip ''2024-01-15T10:00:00Z'' = ''2024-01-15T10:00:00Z''"
  "z_to_offset ''2024-01-15T10:00:00Z'' = ''2024-01-15T10:00:00+00:00''"
  "strip ''2024-01-15'' = ''2024-01-15''" "z_to_offset ''2024-01-15'' = ''2024-01-15''"
  "strip ''15/01/2024'' = ''15/01/2024''" "z_to_offset ''15/01/2024'' = ''15/01/2024''"
  "strip ''not-a-date'' = ''not-a-date''" "z_to_offset ''not-a-date'' = ''not-a-date''"
  by code_simp+

lemma example_parses:
  "ref_fromisoformat ''2024-01-15T10:00:00+00:00''
     = Some \<lparr>wall = mk_wall 2024 1 15 10 0 0 0, tzinfo = Some 0\<rparr>"
  "ref_fromisoformat ''2024-01-15'' = Some \<lparr>wall = mk_wall 2024 1 15 0 0 0 0, tzinfo = None\<rparr>"
  "ref_fromisoformat ''15/01/2024'' = None"
  "ref_strptime ''15/01/2024'' ''%Y-%m-%d'' = None"
  "ref_strptime ''15/01/2024'' ''%d/%m/%Y''
     = Some \<lparr>wall = mk_wall 2024 1 15 0 0 0 0, tzinfo = None\<rparr>"
  "ref_fromisoformat ''not-a-date'' = None"
  "ref_strptime ''not-a-date'' ''%Y-%m-%d'' = None"
  "ref_strptime ''not-a-date'' ''%d/%m/%Y'' = None"
  by code_simp+

lemma example_readings:
  "mk_wall 2024 1 15 10 0 0 0 = mk_wall 2024 1 15 0 0 0 0 + 10 * hour_us"
  "mk_wall 2024 1 16 0 0 0 0 = mk_wall 2024 1 15 0 0 0 0 + 24 * hour_us"
  "in_range (mk_wall 2024 1 15 10 0 0 0)"
  "0 \<le> mk_wall 2024 1 15 0 0 0 0" "mk_wall 2024 1 15 0 0 0 0 + 24 * hour_us \<le> max_wall"
  by code_simp+

subsection \<open>The order of the dedup resolver\<close>

lemma key_lt_comparable:
  assumes "comparable k1 k2"
  shows "key_lt k1 k2 = Inr (reading k1 < reading k2)"
proof -
  have e: "dt_eq a b \<Longrightarrow> utc_us a = utc_us b" for a b
    by (simp add: dt_eq_def)
  have l: "\<not> dt_eq a b \<Longrightarrow> dt_lt a b = Inr x \<Longrightarrow> utc_us a \<noteq> utc_us b \<and> x = (utc_us a < utc_us b)"
    for a b x
    by (auto simp: dt_eq_def dt_lt_def split: if_splits)
  obtain x where x: "key_lt k1 k2 = Inr x"
    using assms by (auto simp: comparable_def split: sum.splits)
  show ?thesis
  proof (cases "dt_eq (fst k1) (fst k2)")
    case False
    with x l [of "fst k1" "fst k2" x] show ?thesis
      by (cases k1, cases k2) (auto simp: key_lt_def reading_def)
  next
    case True
    note first = e [OF True]
    show ?thesis
    proof (cases "dt_eq (snd k1) (snd k2)")
      case False
      with True x l [of "snd k1" "snd k2" x] first show ?thesis
        by (cases k1, cases k2) (auto simp: key_lt_def reading_def)
    next
      case second: True
      with True x first e [OF second] show ?thesis
        by (cases k1, cases k2) (auto simp: key_lt_def reading_def)
    qed
  qed
qed

lemma sequence_exn_Inr:
  "sequence_exn ms = Inr xs \<longleftrightarrow> ms = map Inr xs"
proof (induction ms arbitrary: xs)
  case Nil
  show ?case by auto
next
  case (Cons m ms)
  show ?case
    by (cases xs) (auto simp: bind_exn_Inr_iff map_exn_Inr_iff Cons.IH)
qed


lemma ordenar_registros_Inr:
  assumes "ordenar_registros lib regs = Inr ords"
  shows "\<exists>keys. map (score lib) regs = map Inr keys
           \<and> (\<forall>k1 \<in> set keys. \<forall>k2 \<in> set keys. comparable k1 k2)
           \<and> ords = map snd (rev (sort_key (\<lambda>p. reading (fst p)) (rev (zip keys regs))))"
  using assms
  by (auto simp: ordenar_registros_def bind_exn_Inr_iff sequence_exn_Inr list_all_iff
      split: if_splits)

lemma zip_scores:
  assumes "map (score lib) regs = map Inr keys" and "p \<in> set (zip keys regs)"
  shows "score lib (snd p) = Inr (fst p) \<and> fst p \<in> set keys"
proof -
  from assms(1) have len: "length regs = length keys"
    by (metis length_map)
  from assms(2) obtain i where i: "i < length keys" "i < length regs" "p = (keys ! i, regs ! i)"
    by (auto simp: set_zip)
  from assms(1) i have "score lib (regs ! i) = Inr (keys ! i)"
    by (metis nth_map)
  with i show ?thesis
    by simp
qed

lemma ordenar_registros_sorted:
  assumes "ordenar_registros lib regs = Inr ords"
  shows "mset ords = mset regs"
    and "sorted_wrt (\<lambda>x y. \<exists>kx ky. score lib x = Inr kx \<and> score lib y = Inr ky
                               \<and> key_lt kx ky = Inr False) ords"
proof -
  from ordenar_registros_Inr [OF assms] obtain keys where
    k: "map (score lib) regs = map Inr keys"
    and c: "\<forall>k1 \<in> set keys. \<forall>k2 \<in> set keys. comparable k1 k2"
    and o: "ords = map snd (rev (sort_key (\<lambda>p. reading (fst p)) (rev (zip keys regs))))"
    by blast
  let ?f = "\<lambda>p :: (datetime \<times> datetime) \<times> (string \<rightharpoonup> pyval). reading (fst p)"
  let ?S = "rev (sort_key ?f (rev (zip keys regs)))"
  from k have len: "length keys = length regs"
    by (metis length_map)
  have "mset (map snd ?S) = mset (map snd (zip keys regs))"
    by simp
  with len show "mset ords = mset regs"
    unfolding o by (simp add: map_snd_zip)
  have "sorted (map ?f (sort_key ?f (rev (zip keys regs))))"
    by (rule sorted_sort_key)
  then have "sorted_wrt (\<lambda>p q. ?f p \<le> ?f q) (sort_key ?f (rev (zip keys regs)))"
    by (simp add: sorted_map)
  then have desc: "sorted_wrt (\<lambda>p q. ?f q \<le> ?f p) ?S"
    by (simp add: sorted_wrt_rev)
  have "sorted_wrt (\<lambda>p q. \<exists>kx ky. score lib (snd p) = Inr kx \<and> score lib (snd q) = Inr ky
                              \<and> key_lt kx ky = Inr False) ?S"
  proof (rule sorted_wrt_mono_rel [OF _ desc])
    fix p q
    assume "p \<in> set ?S" "q \<in> set ?S" and le: "?f q \<le> ?f p"
    then have "p \<in> set (zip keys regs)" "q \<in> set (zip keys regs)"
      by simp_all
    with zip_scores [OF k] have s: "score lib (snd p) = Inr (fst p)" "fst p \<in> set keys"
      "score lib (snd q) = Inr (fst q)" "fst q \<in> set keys"
      by blast+
    with c have "comparable (fst p) (fst q)"
      by blast
    from key_lt_comparable [OF this] le have "key_lt (fst p) (fst q) = Inr False"
      by (simp add: not_less)
    with s show "\<exists>kx ky. score lib (snd p) = Inr kx \<and> score lib (snd q) = Inr ky
                    \<and> key_lt kx ky = Inr False"
      by blast
  qed
  then show "sorted_wrt (\<lambda>x y. \<exists>kx ky. score lib x = Inr kx \<and> score lib y = Inr ky
                               \<and> key_lt kx ky = Inr False) ords"
    unfolding o by (simp add: sorted_wrt_map)
qed


lemma dt_lt_True:
  "dt_lt x y = Inr True \<longleftrightarrow> (tzinfo x = None) = (tzinfo y = None) \<and> utc_us x < utc_us y"
  by (simp add: dt_lt_def)

lemma comparable_distinct:
  assumes "(tzinfo (fst k1) = None) = (tzinfo (fst k2) = None)"
    and "utc_us (fst k1) \<noteq> utc_us (fst k2)"
  shows "comparable k1 k2"
  using assms by (auto simp: comparable_def key_lt_def dt_eq_def dt_lt_def)

lemma ordenar_registros_succeeds:
  "(\<exists>ords. ordenar_registros lib regs = Inr ords) \<longleftrightarrow>
   (\<exists>keys. map (score lib) regs = map Inr keys
      \<and> (\<forall>k1 \<in> set keys. \<forall>k2 \<in> set keys. comparable k1 k2))"
  by (auto simp: ordenar_registros_def bind_exn_Inr_iff sequence_exn_Inr list_all_iff
      split: if_splits)

lemma comparable_refl: "comparable k k"
  by (simp add: comparable_def key_lt_def dt_eq_def)

lemma apagar_keeps:
  "impresso (apagar delete_inventory dry_run xs res) = impresso res
   \<and> duplicados (apagar delete_inventory dry_run xs res) = duplicados res"
  by (induction xs arbitrary: res) (auto split: option.splits)

lemma apagar_dry_run:
  "apagar delete_inventory True xs res = res\<lparr>ignorados := ignorados res + length xs\<rparr>"
  by (induction xs arbitrary: res) simp_all

lemma three_records_sorted:
  assumes sa: "score lib a = Inr (t3, ca)" and sb: "score lib b = Inr (t1, cb)"
    and sc: "score lib c = Inr (t2, cc)"
    and lt: "dt_lt t2 t1 = Inr True" "dt_lt t1 t3 = Inr True"
    and regs: "regs \<in> {[a, b, c], [a, c, b], [b, a, c], [b, c, a], [c, a, b], [c, b, a]}"
  shows "ordenar_registros lib regs = Inr [a, b, c]"
proof -
  from lt have aware: "(tzinfo t2 = None) = (tzinfo t1 = None)" "(tzinfo t1 = None) = (tzinfo t3 = None)"
    and order: "utc_us t2 < utc_us t1" "utc_us t1 < utc_us t3"
    by (simp_all add: dt_lt_True)
  have cmp: "comparable (t3, ca) (t1, cb)" "comparable (t1, cb) (t3, ca)"
    "comparable (t3, ca) (t2, cc)" "comparable (t2, cc) (t3, ca)"
    "comparable (t1, cb) (t2, cc)" "comparable (t2, cc) (t1, cb)"
    using aware order by (simp_all add: comparable_distinct)
  have rd: "reading (t3, ca) = (utc_us t3, utc_us ca)" "reading (t1, cb) = (utc_us t1, utc_us cb)"
    "reading (t2, cc) = (utc_us t2, utc_us cc)"
    by (simp_all add: reading_def)
  from regs show ?thesis
    using sa sb sc cmp order
    by (elim insertE emptyE)
       (simp_all add: ordenar_registros_def comparable_refl rd)
qed


lemma agrupar_three:
  assumes "hostname_key x = Inr h" "hostname_key y = Inr h" "hostname_key z = Inr h" "h \<noteq> []"
  shows "agrupar [x, y, z] [] = Inr [(h, [x, y, z])]"
  using assms by (simp add: add_to_group_def)

lemma processar_grupos_single:
  assumes "1 < length regs" and "ordenar_registros lib regs = Inr (m # rest)"
    and "m ''machine_id'' = Some v"
  shows "processar_grupos lib delete_inventory dry_run [(host, regs)] res =
           Inr (apagar delete_inventory dry_run rest
                  (res\<lparr>duplicados := duplicados res + 1,
                       impresso := impresso res @ [(host, m, rest)]\<rparr>))"
  using assms by (simp add: subscript_def)

section \<open>Properties of the program\<close>

text \<open>
  C7.  An observation that lacks at least one of the required keys \<open>machine_id\<close>,
  \<open>hostname\<close>, \<open>ip\<close>, \<open>os\<close>, \<open>cpu_percent\<close>, \<open>memory_total_mb\<close> makes
  \<open>create_or_update\<close> fail with a \<open>ValidationError\<close> whose \<open>missing_fields\<close> are exactly
  the required keys that are absent (in the order of the list of required keys), and the
  session, with its table, is what it was: nothing is persisted.
\<close>

theorem create_or_update_missing_fields:
  assumes "\<exists>k \<in> set required. data k = None"
  shows "create_or_update lib tz now data s =
           (Inl (ValidationError (Missing_required_fields (filter (\<lambda>k. data k = None) required))
                   (filter (\<lambda>k. data k = None) required)), s)
         \<and> set (filter (\<lambda>k. data k = None) required) = {k \<in> set required. data k = None}"
proof -
  from assms have "filter (\<lambda>k. data k = None) required \<noteq> []"
    by (simp add: filter_empty_conv)
  then show ?thesis
    by (simp add: create_or_update_def Let_def)
qed

theorem create_or_update_missing_fields_witness:
  "create_or_update ref_lib utc_minus_4 sample_now
     [''machine_id'' \<mapsto> PStr ''m1'', ''hostname'' \<mapsto> PStr ''pc-01''] empty_session =
     (Inl (ValidationError (Missing_required_fields [''ip'', ''os'', ''cpu_percent'', ''memory_total_mb''])
             [''ip'', ''os'', ''cpu_percent'', ''memory_total_mb'']), empty_session)"
  using create_or_update_missing_fields
          [of "[''machine_id'' \<mapsto> PStr ''m1'', ''hostname'' \<mapsto> PStr ''pc-01'']"
              ref_lib utc_minus_4 sample_now empty_session]
  by (simp add: required_def)

text \<open>
  C10.  The check of the required fields looks at the keys only.  When all six required
  keys are present, \<open>create_or_update\<close> never fails with the \<open>ValidationError\<close> of
  missing fields, whatever the values are; and when the \<open>machine_id\<close> is a string and
  one of the values of \<open>hostname\<close>, \<open>ip\<close>, \<open>os\<close>, \<open>cpu_percent\<close>, \<open>memory_total_mb\<close>
  is \<^verbatim>\<open>None\<close>, the coercion raises a built-in exception, the session is rolled back
  and the failure surfaces as a \<open>DatabaseError\<close> that wraps the exception, not as a
  \<open>ValidationError\<close>.
\<close>

theorem create_or_update_null_coercion:
  assumes "\<forall>f \<in> set required. data f \<noteq> None"
  shows "(\<forall>m fs. fst (create_or_update lib tz now data s)
                   \<noteq> Inl (ValidationError (Missing_required_fields m) fs))
         \<and> (\<forall>k. data ''machine_id'' = Some (PStr k) \<longrightarrow> has_null data \<longrightarrow>
               (\<exists>b. create_or_update lib tz now data s =
                      (Inl (DatabaseError ''Failed to create/update inventory'' (Builtin b)),
                       session_rollback s)))"
proof (intro conjI allI impI)
  from assms have nomiss: "filter (\<lambda>k. data k = None) required = []"
    by (simp add: filter_empty_conv)
  fix m fs
  show "fst (create_or_update lib tz now data s) \<noteq> Inl (ValidationError (Missing_required_fields m) fs)"
  proof (cases "create_or_update_body lib tz now data s")
    case (Pair r s')
    show ?thesis
    proof (cases r)
      case (Inl e)
      with Pair create_or_update_body_error [of lib tz now data s e s'] nomiss show ?thesis
        by (auto simp: create_or_update_def)
    next
      case (Inr x)
      with Pair nomiss show ?thesis
        by (simp add: create_or_update_def)
    qed
  qed
next
  from assms have nomiss: "filter (\<lambda>k. data k = None) required = []"
    by (simp add: filter_empty_conv)
  fix k
  assume k: "data ''machine_id'' = Some (PStr k)" and null: "has_null data"
  show "\<exists>b. create_or_update lib tz now data s =
          (Inl (DatabaseError ''Failed to create/update inventory'' (Builtin b)), session_rollback s)"
  proof (cases "session_get s k")
    case None
    obtain b where "create_new lib tz now data k s = (Inl (Builtin b), s)"
      using create_new_null [OF null] by blast
    with None k nomiss show ?thesis
      by (simp add: create_or_update_def create_or_update_body_def)
  next
    case (Some existing)
    obtain b y where "update_existing lib tz now data existing s = (Inl (Builtin b), session_put s y)"
      using update_existing_null [OF null] by blast
    with Some k nomiss show ?thesis
      by (simp add: create_or_update_def create_or_update_body_def)
  qed
qed

theorem create_or_update_null_coercion_witness:
  "\<exists>b. create_or_update ref_lib utc_minus_4 sample_now
         (sample_observation(''cpu_percent'' \<mapsto> PNone)) empty_session =
       (Inl (DatabaseError ''Failed to create/update inventory'' (Builtin b)), empty_session)"
proof -
  have p: "\<forall>f \<in> set required. (sample_observation(''cpu_percent'' \<mapsto> PNone)) f \<noteq> None"
    by (simp add: required_def sample_observation_def)
  have n: "has_null (sample_observation(''cpu_percent'' \<mapsto> PNone))"
    by (simp add: has_null_def)
  have k: "(sample_observation(''cpu_percent'' \<mapsto> PNone)) ''machine_id'' = Some (PStr ''m1'')"
    by (simp add: sample_observation_def)
  have r: "session_rollback empty_session = empty_session"
    by (simp add: session_rollback_def empty_session_def)
  from create_or_update_null_coercion [OF p, of ref_lib utc_minus_4 sample_now empty_session] k n
  have "\<exists>b. create_or_update ref_lib utc_minus_4 sample_now
              (sample_observation(''cpu_percent'' \<mapsto> PNone)) empty_session =
            (Inl (DatabaseError ''Failed to create/update inventory'' (Builtin b)),
             session_rollback empty_session)"
    by blast
  then show ?thesis
    unfolding r .
qed




text \<open>
  C2 (as amended).  For an existing record, a \<open>partial_update\<close> whose values can be
  coerced and whose data has at least one of the keys \<open>computer_activation\<close> and
  \<open>activation_days\<close> succeeds and commits the record it returns; it leaves
  \<open>updated_at\<close> as it was when the data has no key \<open>activation_days\<close> (only
  \<open>computer_activation\<close>), and sets it to the current time in the configured zone when
  the data has the key \<open>activation_days\<close>, alone or beside \<open>computer_activation\<close>.
\<close>

theorem partial_update_updated_at:
  assumes "session_get s k = Some r"
    and "succeeds (parse_datetime lib tz (dict_get data ''computer_activation''))"
    and "dict_get data ''activation_days'' = PNone
         \<or> succeeds (py_int lib (dict_get data ''activation_days''))"
    and "data ''computer_activation'' \<noteq> None \<or> data ''activation_days'' \<noteq> None"
  shows "\<exists>obj. partial_update lib tz now k data s = (Inr obj, session_commit (session_put s obj))
           \<and> updated_at obj =
               (if data ''activation_days'' = None then updated_at r
                else Some (datetime_now tz now))"
proof -
  obtain a where a: "patch_computer_activation lib tz data (r, []) =
      Inr (r\<lparr>computer_activation := a\<rparr>,
           if data ''computer_activation'' = None then [] else [''computer_activation''])"
    using patch_computer_activation_ok [OF assms(2)] by blast
  obtain d where d: "patch_activation_days lib data (r\<lparr>computer_activation := a\<rparr>,
        if data ''computer_activation'' = None then [] else [''computer_activation'']) =
      Inr (r\<lparr>computer_activation := a, activation_days := d\<rparr>,
           if data ''activation_days'' = None
           then (if data ''computer_activation'' = None then [] else [''computer_activation''])
           else (if data ''computer_activation'' = None then [] else [''computer_activation''])
                  @ [''activation_days''])"
    using patch_activation_days_ok [OF assms(3), of "r\<lparr>computer_activation := a\<rparr>"] by blast
  have g: "get_by_id s k = Inr r"
    using assms(1) by (simp add: get_by_id_def)
  show ?thesis
  proof (cases "data ''activation_days'' = None")
    case True
    with assms(4) have "data ''computer_activation'' \<noteq> None" by simp
    with True a d g show ?thesis
      by (simp add: partial_update_def partial_update_body_def check_updated_fields_def
          stamp_updated_at_def)
  next
    case False
    then obtain y where "data ''activation_days'' = Some y" by blast
    with a d g show ?thesis
      by (simp add: partial_update_def partial_update_body_def check_updated_fields_def
          stamp_updated_at_def)
  qed
qed


theorem partial_update_updated_at_witness:
  "\<exists>obj. partial_update ref_lib utc_minus_4 sample_now ''m1''
           [''computer_activation'' \<mapsto> PStr ''2024-01-15''] sample_session =
         (Inr obj, session_commit (session_put sample_session obj))
       \<and> updated_at obj = updated_at sample_record"
proof -
  have g: "session_get sample_session ''m1'' = Some sample_record"
    by (simp add: session_get_def sample_session_def)
  have "succeeds (parse_datetime ref_lib utc_minus_4 (PStr ''2024-01-15''))"
    by code_simp
  then have p: "succeeds (parse_datetime ref_lib utc_minus_4
             (dict_get [''computer_activation'' \<mapsto> PStr ''2024-01-15''] ''computer_activation''))"
    by (simp add: dict_get_def)
  have n: "dict_get [''computer_activation'' \<mapsto> PStr ''2024-01-15''] ''activation_days'' = PNone
           \<or> succeeds (py_int ref_lib
                (dict_get [''computer_activation'' \<mapsto> PStr ''2024-01-15''] ''activation_days''))"
    by (simp add: dict_get_def)
  have c: "[''computer_activation'' \<mapsto> PStr ''2024-01-15''] ''computer_activation'' \<noteq> None
           \<or> [''computer_activation'' \<mapsto> PStr ''2024-01-15''] ''activation_days'' \<noteq> None"
    by simp
  have e: "[''computer_activation'' \<mapsto> PStr ''2024-01-15''] ''activation_days'' = None"
    by simp
  from partial_update_updated_at [OF g p n c, of sample_now] show ?thesis
    by (simp only: e simp_thms if_True)
qed

text \<open>
  The sentence of the specification as it stands fails where the data has the key \<open>activation_days\<close> only: the
  record had no \<open>updated_at\<close>, and the call stamps it.
\<close>

theorem partial_update_activation_days_only:
  "updated_at sample_record = None
   \<and> partial_update ref_lib utc_minus_4 sample_now ''m1'' [''activation_days'' \<mapsto> PInt 30]
       sample_session =
     (Inr (sample_record\<lparr>activation_days := Some 30,
                         updated_at := Some (datetime_now utc_minus_4 sample_now)\<rparr>),
      \<lparr>table = [''m1'' \<mapsto> sample_record\<lparr>activation_days := Some 30,
                         updated_at := Some (datetime_now utc_minus_4 sample_now)\<rparr>],
       dirty = Map.empty\<rparr>)"
  by (simp add: partial_update_def partial_update_body_def get_by_id_def session_get_def
      sample_session_def patch_computer_activation_def patch_activation_days_def
      check_updated_fields_def stamp_updated_at_def dict_get_def subscript_def
      session_commit_def session_put_def sample_record_def)



text \<open>
  C1 (as amended).  \<open>get_age_distribution\<close> returns the five ranges under their
  labels, and a record counts in the range its age falls into, whatever other records
  the store holds: with the age in months the whole days between the activation and
  now, divided by 30.42, a record activated exactly 365 days before now (up to 365
  days) is counted in the range \<open>[0, 12)\<close>, since 365 / 30.42 is less than 12; one
  activated 366 to 1095 days before now in \<open>[12, 36)\<close>; and one activated 11 years
  before now (4016 to 4018 days; any number of days from 3651 to 304169) in the last
  range, \<open>[120, 9999)\<close>.
\<close>

theorem age_range_of_elapsed_days:
  assumes "computer_activation machine = Some a"
    and "astimezone_or_localize tz a = Inr a'"
    and "(now - utc_us a') div day_us = d"
  shows "map fst (get_age_distribution tz now (rows1 @ rows2))
           = [''0-12'', ''12-36'', ''36-60'', ''60-120'', ''>120'']
         \<and> (0 \<le> d \<and> d \<le> 365 \<longrightarrow>
               get_age_distribution tz now (rows1 @ machine # rows2)
                 = bump 0 (get_age_distribution tz now (rows1 @ rows2)))
         \<and> (366 \<le> d \<and> d \<le> 1095 \<longrightarrow>
               get_age_distribution tz now (rows1 @ machine # rows2)
                 = bump 1 (get_age_distribution tz now (rows1 @ rows2)))
         \<and> (3651 \<le> d \<and> d \<le> 304169 \<longrightarrow>
               get_age_distribution tz now (rows1 @ machine # rows2)
                 = bump 4 (get_age_distribution tz now (rows1 @ rows2)))"
proof -
  let ?rs = "counted_ranges tz now (rows1 @ rows2)"
  have c: "counted_ranges tz now (rows1 @ machine # rows2) = count_age (months d) ?rs"
    using counted_ranges_middle [OF assms(1,2)] assms(3) by simp
  note r = count_age_ranges [OF bounds_counted_ranges, of "months d" tz now "rows1 @ rows2"]
  have m: "(0 \<le> months d) = (0 \<le> d)" "(months d < 12) = (d \<le> 365)"
    "(12 \<le> months d) = (366 \<le> d)" "(months d < 36) = (d \<le> 1095)"
    "(36 \<le> months d) = (1096 \<le> d)" "(months d < 60) = (d \<le> 1825)"
    "(60 \<le> months d) = (1826 \<le> d)" "(months d < 120) = (d \<le> 3650)"
    "(120 \<le> months d) = (3651 \<le> d)" "(months d < 9999) = (d \<le> 304169)"
    using months_bounds(2) [of d 12] months_bounds(3) [of 12 d]
      months_bounds(2) [of d 36] months_bounds(3) [of 36 d]
      months_bounds(2) [of d 60] months_bounds(3) [of 60 d]
      months_bounds(2) [of d 120] months_bounds(3) [of 120 d]
      months_bounds(2) [of d 9999]
    by (simp_all add: months_bounds(1)) presburger+
  have l: "0 < length ?rs" "1 < length ?rs" "4 < length ?rs"
    by (simp_all add: length_counted_ranges)
  have "0 \<le> d \<and> d \<le> 365 \<Longrightarrow> counted_ranges tz now (rows1 @ machine # rows2) = add_one 0 ?rs"
    unfolding c r m by simp
  then have g0: "0 \<le> d \<and> d \<le> 365 \<Longrightarrow>
      get_age_distribution tz now (rows1 @ machine # rows2)
        = bump 0 (get_age_distribution tz now (rows1 @ rows2))"
    by (simp only: get_age_distribution_def map_add_one [OF l(1)])
  have "366 \<le> d \<and> d \<le> 1095 \<Longrightarrow>
      counted_ranges tz now (rows1 @ machine # rows2) = add_one 1 ?rs"
    unfolding c r m by simp
  then have g1: "366 \<le> d \<and> d \<le> 1095 \<Longrightarrow>
      get_age_distribution tz now (rows1 @ machine # rows2)
        = bump 1 (get_age_distribution tz now (rows1 @ rows2))"
    by (simp only: get_age_distribution_def map_add_one [OF l(2)])
  have "3651 \<le> d \<and> d \<le> 304169 \<Longrightarrow>
      counted_ranges tz now (rows1 @ machine # rows2) = add_one 4 ?rs"
    unfolding c r m by simp
  then have g4: "3651 \<le> d \<and> d \<le> 304169 \<Longrightarrow>
      get_age_distribution tz now (rows1 @ machine # rows2)
        = bump 4 (get_age_distribution tz now (rows1 @ rows2))"
    by (simp only: get_age_distribution_def map_add_one [OF l(3)])
  from g0 g1 g4 labels_counted_ranges [of tz now "rows1 @ rows2"] show ?thesis
    by blast
qed

theorem age_range_of_elapsed_days_witness:
  "get_age_distribution utc_minus_4 sample_now [year_old_record]
     = bump 0 (get_age_distribution utc_minus_4 sample_now [])"
proof -
  let ?a = "\<lparr>wall = sample_now - 365 * day_us - 4 * hour_us, tzinfo = Some (- 4 * hour_us)\<rparr>"
  have a: "computer_activation year_old_record = Some ?a"
    by (simp add: year_old_record_def)
  have z: "astimezone_or_localize utc_minus_4 ?a = Inr ?a"
    by code_simp
  have d: "(sample_now - utc_us ?a) div day_us = 365"
    by code_simp
  from age_range_of_elapsed_days [OF a z d, of "[]" "[]"] show ?thesis
    by simp
qed

text \<open>
  The sentence of the specification as it stands fails for the record activated exactly 365 days before the
  clock reading: it is counted in the first range, not in \<open>[12, 36)\<close>.
\<close>

theorem year_old_record_in_first_range:
  "utc_us (the (computer_activation year_old_record)) = sample_now - 365 * day_us
   \<and> ages_in_months utc_minus_4 sample_now [year_old_record] = [36500 / 3042]
   \<and> get_age_distribution utc_minus_4 sample_now [year_old_record]
       = [(''0-12'', 1), (''12-36'', 0), (''36-60'', 0), (''60-120'', 0), (''>120'', 0)]"
  by code_simp

text \<open>
  C4 (as amended).  The sum of the five counts that \<open>get_age_distribution\<close> returns
  equals the number of records with an activation date whose age is computed and lies
  in \<open>[0, 9999)\<close> months: an age in that interval is held by exactly one of the five
  ranges, and any other age (an activation date in the future, or 9999 months and more
  ago) by none, so that such a record is not counted.
\<close>

theorem age_distribution_total:
  "sum_list (map snd (get_age_distribution tz now rows))
     = int (length (filter (\<lambda>m. 0 \<le> m \<and> m < 9999) (ages_in_months tz now rows)))
   \<and> length (filter (holds m) ranges) = (if 0 \<le> m \<and> m < 9999 then 1 else 0)
   \<and> map fst (get_age_distribution tz now rows)
       = [''0-12'', ''12-36'', ''36-60'', ''60-120'', ''>120'']"
proof -
  have "sum_list (map snd (get_age_distribution tz now rows))
          = sum_list (map r_count (counted_ranges tz now rows))"
    by (simp add: get_age_distribution_def comp_def)
  also have "\<dots> = sum_list (map r_count ranges)
      + int (length (filter (\<lambda>m. list_ex (holds m) ranges) (ages_in_months tz now rows)))"
    unfolding counted_ranges_def by (rule sum_foldl_count_age)
  also have "sum_list (map r_count ranges) = 0"
    by (simp add: ranges_def)
  finally show ?thesis
    using ranges_hold_once [of m] labels_counted_ranges [of tz now rows]
    by (simp add: ranges_hold)
qed

text \<open>
  The sentence of the specification as it stands fails for a record activated one day after the clock reading:
  its age is computed (minus one day), no range holds it, and all five counts are 0.
\<close>

theorem future_record_not_counted:
  "computer_activation future_record = Some \<lparr>wall = sample_now + day_us, tzinfo = Some 0\<rparr>
   \<and> ages_in_months utc_minus_4 sample_now [future_record] = [- (100 / 3042)]
   \<and> get_age_distribution utc_minus_4 sample_now [future_record]
       = [(''0-12'', 0), (''12-36'', 0), (''36-60'', 0), (''60-120'', 0), (''>120'', 0)]"
  by code_simp




text \<open>
  C6 (as amended).  On a string that is not blank, the normalizer strips it, rewrites a
  trailing \<open>Z\<close> to \<open>+00:00\<close> and tries the ISO-8601 parse first: where that succeeds,
  the result is the parsed instant converted to the zone (localized, if it is naive),
  whatever the fallback formats would give.  Where it fails, the formats \<^verbatim>\<open>%Y-%m-%d\<close>
  and \<^verbatim>\<open>%d/%m/%Y\<close> are tried in this order, and the first naive result is localized;
  where all fail, the normalizer fails with the \<open>ValidationError\<close> of an invalid
  datetime format (the spec's \<open>InvalidFormat\<close>), which carries the raw value.

  With the parsers of the reference library, in any zone: \<open>2024-01-15\<close> and
  \<open>15/01/2024\<close> yield midnight of 2024-01-15, localized in the zone;
  \<open>2024-01-15T10:00:00Z\<close> yields 10:00 UTC of that day converted to the zone, which
  is an instant on 2024-01-15 there when the zone's offset at that moment is at least
  -10 hours and less than +14 hours; and \<open>not-a-date\<close> fails with the
  \<open>ValidationError\<close>.
\<close>

theorem normalizer_order_and_examples:
  "(strip s \<noteq> [] \<longrightarrow>
      (\<forall>dt. fromisoformat lib (z_to_offset (strip s)) = Some dt \<longrightarrow>
         parse_datetime lib tz (PStr s) = map_exn Some (astimezone_or_localize tz dt))
      \<and> (fromisoformat lib (z_to_offset (strip s)) = None \<longrightarrow>
           parse_datetime lib tz (PStr s) =
             (case try_formats lib tz (z_to_offset (strip s)) [''%Y-%m-%d'', ''%d/%m/%Y''] of
                Some dt \<Rightarrow> Inr (Some dt)
              | None \<Rightarrow> Inl (ValidationError (Invalid_datetime_format (PStr s)) []))))
   \<and> parse_datetime ref_lib tz (PStr ''2024-01-15'')
       = Inr (Some (localize tz \<lparr>wall = mk_wall 2024 1 15 0 0 0 0, tzinfo = None\<rparr>))
   \<and> parse_datetime ref_lib tz (PStr ''15/01/2024'')
       = Inr (Some (localize tz \<lparr>wall = mk_wall 2024 1 15 0 0 0 0, tzinfo = None\<rparr>))
   \<and> parse_datetime ref_lib tz (PStr ''2024-01-15T10:00:00Z'')
       = map_exn Some (fromutc tz (mk_wall 2024 1 15 10 0 0 0))
   \<and> (- 10 * hour_us \<le> utcoffset_at tz (mk_wall 2024 1 15 10 0 0 0)
        \<and> utcoffset_at tz (mk_wall 2024 1 15 10 0 0 0) < 14 * hour_us \<longrightarrow>
        (\<exists>d. parse_datetime ref_lib tz (PStr ''2024-01-15T10:00:00Z'') = Inr (Some d)
           \<and> tzinfo d = Some (utcoffset_at tz (mk_wall 2024 1 15 10 0 0 0))
           \<and> utc_us d = mk_wall 2024 1 15 10 0 0 0
           \<and> mk_wall 2024 1 15 0 0 0 0 \<le> wall d \<and> wall d < mk_wall 2024 1 16 0 0 0 0))
   \<and> parse_datetime ref_lib tz (PStr ''not-a-date'')
       = Inl (ValidationError (Invalid_datetime_format (PStr ''not-a-date'')) [])"
proof (intro conjI impI allI)
  fix dt
  assume "strip s \<noteq> []" "fromisoformat lib (z_to_offset (strip s)) = Some dt"
  then show "parse_datetime lib tz (PStr s) = map_exn Some (astimezone_or_localize tz dt)"
    by (rule parse_datetime_iso)
next
  assume "strip s \<noteq> []" "fromisoformat lib (z_to_offset (strip s)) = None"
  then show "parse_datetime lib tz (PStr s) =
             (case try_formats lib tz (z_to_offset (strip s)) [''%Y-%m-%d'', ''%d/%m/%Y''] of
                Some dt \<Rightarrow> Inr (Some dt)
              | None \<Rightarrow> Inl (ValidationError (Invalid_datetime_format (PStr s)) []))"
    by (rule parse_datetime_fallback)
next
  show "parse_datetime ref_lib tz (PStr ''2024-01-15'')
       = Inr (Some (localize tz \<lparr>wall = mk_wall 2024 1 15 0 0 0 0, tzinfo = None\<rparr>))"
    by (subst parse_datetime_iso [where dt = "\<lparr>wall = mk_wall 2024 1 15 0 0 0 0, tzinfo = None\<rparr>"])
       (simp_all add: example_strings example_parses ref_lib_fields astimezone_or_localize_def)
next
  show "parse_datetime ref_lib tz (PStr ''15/01/2024'')
       = Inr (Some (localize tz \<lparr>wall = mk_wall 2024 1 15 0 0 0 0, tzinfo = None\<rparr>))"
    by (subst parse_datetime_fallback)
       (simp_all add: example_strings example_parses ref_lib_fields)
next
  show z: "parse_datetime ref_lib tz (PStr ''2024-01-15T10:00:00Z'')
       = map_exn Some (fromutc tz (mk_wall 2024 1 15 10 0 0 0))"
    by (subst parse_datetime_iso [where dt = "\<lparr>wall = mk_wall 2024 1 15 10 0 0 0, tzinfo = Some 0\<rparr>"])
       (simp_all add: example_strings example_parses example_readings(3) ref_lib_fields
          astimezone_or_localize_def astimezone_def)
  assume o: "- 10 * hour_us \<le> utcoffset_at tz (mk_wall 2024 1 15 10 0 0 0)
        \<and> utcoffset_at tz (mk_wall 2024 1 15 10 0 0 0) < 14 * hour_us"
  let ?off = "utcoffset_at tz (mk_wall 2024 1 15 10 0 0 0)"
  let ?d = "\<lparr>wall = mk_wall 2024 1 15 10 0 0 0 + ?off, tzinfo = Some ?off\<rparr>"
  from o example_readings(4,5) have r: "in_range (mk_wall 2024 1 15 10 0 0 0 + ?off)"
    unfolding example_readings(1) in_range_def by (simp add: hour_us_def)
  then have "fromutc tz (mk_wall 2024 1 15 10 0 0 0) = Inr ?d"
    by (simp add: fromutc_def Let_def)
  with z have "parse_datetime ref_lib tz (PStr ''2024-01-15T10:00:00Z'') = Inr (Some ?d)"
    by simp
  moreover from o have "mk_wall 2024 1 15 0 0 0 0 \<le> wall ?d" "wall ?d < mk_wall 2024 1 16 0 0 0 0"
    unfolding example_readings(1,2) by (simp_all add: hour_us_def)
  moreover have "utc_us ?d = mk_wall 2024 1 15 10 0 0 0" "tzinfo ?d = Some ?off"
    by (simp_all add: utc_us_def)
  ultimately show "\<exists>d. parse_datetime ref_lib tz (PStr ''2024-01-15T10:00:00Z'') = Inr (Some d)
           \<and> tzinfo d = Some (utcoffset_at tz (mk_wall 2024 1 15 10 0 0 0))
           \<and> utc_us d = mk_wall 2024 1 15 10 0 0 0
           \<and> mk_wall 2024 1 15 0 0 0 0 \<le> wall d \<and> wall d < mk_wall 2024 1 16 0 0 0 0"
    by blast
next
  show "parse_datetime ref_lib tz (PStr ''not-a-date'')
       = Inl (ValidationError (Invalid_datetime_format (PStr ''not-a-date'')) [])"
    by (subst parse_datetime_fallback)
       (simp_all add: example_strings example_parses ref_lib_fields)
qed


theorem normalizer_order_and_examples_witness:
  "parse_datetime ref_lib utc_minus_4 (PStr ''2024-01-15T10:00:00Z'')
     = Inr (Some \<lparr>wall = mk_wall 2024 1 15 6 0 0 0, tzinfo = Some (- 4 * hour_us)\<rparr>)
   \<and> parse_datetime ref_lib utc_minus_4 (PStr ''2024-01-15'')
       = Inr (Some \<lparr>wall = mk_wall 2024 1 15 0 0 0 0, tzinfo = Some (- 4 * hour_us)\<rparr>)
   \<and> parse_datetime ref_lib utc_minus_4 (PStr ''15/01/2024'')
       = Inr (Some \<lparr>wall = mk_wall 2024 1 15 0 0 0 0, tzinfo = Some (- 4 * hour_us)\<rparr>)
   \<and> parse_datetime ref_lib utc_minus_4 (PStr ''not-a-date'')
       = Inl (ValidationError (Invalid_datetime_format (PStr ''not-a-date'')) [])"
proof -
  note t = normalizer_order_and_examples [of "''15/01/2024''" ref_lib utc_minus_4]
  have off: "utcoffset_at utc_minus_4 (mk_wall 2024 1 15 10 0 0 0) = - 4 * hour_us"
    "localize utc_minus_4 \<lparr>wall = mk_wall 2024 1 15 0 0 0 0, tzinfo = None\<rparr>
       = \<lparr>wall = mk_wall 2024 1 15 0 0 0 0, tzinfo = Some (- 4 * hour_us)\<rparr>"
    by (simp_all add: utc_minus_4_def fixed_zone_def localize_def)
  have six: "mk_wall 2024 1 15 10 0 0 0 + - 4 * hour_us = mk_wall 2024 1 15 6 0 0 0"
    by code_simp
  have h: "- 10 * hour_us \<le> utcoffset_at utc_minus_4 (mk_wall 2024 1 15 10 0 0 0)
        \<and> utcoffset_at utc_minus_4 (mk_wall 2024 1 15 10 0 0 0) < 14 * hour_us"
    unfolding off by (simp add: hour_us_def)
  from t h obtain d where d:
    "parse_datetime ref_lib utc_minus_4 (PStr ''2024-01-15T10:00:00Z'') = Inr (Some d)"
    "tzinfo d = Some (utcoffset_at utc_minus_4 (mk_wall 2024 1 15 10 0 0 0))"
    "utc_us d = mk_wall 2024 1 15 10 0 0 0"
    by blast
  from d(2,3) have "d = \<lparr>wall = mk_wall 2024 1 15 10 0 0 0 + - 4 * hour_us,
                          tzinfo = Some (- 4 * hour_us)\<rparr>"
    unfolding off by (cases d) (simp add: utc_us_def)
  with d(1) have a: "parse_datetime ref_lib utc_minus_4 (PStr ''2024-01-15T10:00:00Z'')
     = Inr (Some \<lparr>wall = mk_wall 2024 1 15 6 0 0 0, tzinfo = Some (- 4 * hour_us)\<rparr>)"
    unfolding six by simp
  from t have "parse_datetime ref_lib utc_minus_4 (PStr ''2024-01-15'')
       = Inr (Some (localize utc_minus_4 \<lparr>wall = mk_wall 2024 1 15 0 0 0 0, tzinfo = None\<rparr>))"
    "parse_datetime ref_lib utc_minus_4 (PStr ''15/01/2024'')
       = Inr (Some (localize utc_minus_4 \<lparr>wall = mk_wall 2024 1 15 0 0 0 0, tzinfo = None\<rparr>))"
    "parse_datetime ref_lib utc_minus_4 (PStr ''not-a-date'')
       = Inl (ValidationError (Invalid_datetime_format (PStr ''not-a-date'')) [])"
    by blast+
  with a show ?thesis
    unfolding off by blast
qed

text \<open>
  The sentence of the specification as it stands, for the configured zone whatever it is, fails in a zone eleven
  hours behind UTC: there \<open>2024-01-15T10:00:00Z\<close> is an instant on 2024-01-14, at
  23:00.
\<close>

theorem normalizer_previous_day:
  "parse_datetime ref_lib utc_minus_11 (PStr ''2024-01-15T10:00:00Z'')
     = Inr (Some \<lparr>wall = mk_wall 2024 1 14 23 0 0 0, tzinfo = Some (- 11 * hour_us)\<rparr>)
   \<and> mk_wall 2024 1 14 23 0 0 0 < mk_wall 2024 1 15 0 0 0 0"
  by code_simp

text \<open>
  C8.  The dedup resolver sorts each group of records sharing a hostname in descending
  order by the key (\<open>updated_at\<close> if present else \<open>created_at\<close>, then \<open>created_at\<close>),
  keeps the first element as canonical, and flags the rest for removal.  The sort
  returns exactly when the key of every record can be computed and every two keys can
  be compared; its result is then a rearrangement of the group in which no record
  comes before one with a greater key.  For a group of more than one record the
  resolver keeps the first record of the sorted group and flags all the others.  In
  particular, given three records sharing one hostname with timestamps
  \<open>T3 > T1 > T2\<close> (in Python's order of datetimes), where the record of \<open>T1\<close> has no
  \<open>updated_at\<close> and \<open>created_at = T1\<close>, the record with \<open>updated_at = T3\<close> is
  canonical, in whatever order the records come, and exactly two records are flagged
  for removal: the two others (in a dry run they are counted as ignored, and none as
  removed).
\<close>

theorem dedup_resolver_order:
  "((\<exists>ords. ordenar_registros lib regs = Inr ords) \<longleftrightarrow>
      (\<exists>keys. map (score lib) regs = map Inr keys
         \<and> (\<forall>k1 \<in> set keys. \<forall>k2 \<in> set keys. comparable k1 k2)))
   \<and> (\<forall>ords. ordenar_registros lib regs = Inr ords \<longrightarrow>
      mset ords = mset regs
      \<and> sorted_wrt (\<lambda>x y. \<exists>kx ky. score lib x = Inr kx \<and> score lib y = Inr ky
                              \<and> key_lt kx ky = Inr False) ords)
   \<and> (\<forall>host m rest v res.
        1 < length regs \<longrightarrow> ordenar_registros lib regs = Inr (m # rest) \<longrightarrow>
        m ''machine_id'' = Some v \<longrightarrow>
        processar_grupos lib delete_inventory dry_run [(host, regs)] res =
          Inr (apagar delete_inventory dry_run rest
                 (res\<lparr>duplicados := duplicados res + 1,
                      impresso := impresso res @ [(host, m, rest)]\<rparr>)))
   \<and> (hostname_key a = Inr h \<and> hostname_key b = Inr h \<and> hostname_key c = Inr h \<and> h \<noteq> []
       \<and> a ''machine_id'' \<noteq> None
       \<and> parse_dt lib (dict_get a ''updated_at'') = Inr (Some t3)
       \<and> parse_dt lib (dict_get a ''created_at'') = Inr ca
       \<and> dict_get b ''updated_at'' = PNone
       \<and> parse_dt lib (dict_get b ''created_at'') = Inr (Some t1)
       \<and> parse_dt lib (dict_get c ''updated_at'') = Inr (Some t2)
       \<and> parse_dt lib (dict_get c ''created_at'') = Inr cc
       \<and> dt_lt t2 t1 = Inr True \<and> dt_lt t1 t3 = Inr True
       \<and> items \<in> {[a, b, c], [a, c, b], [b, a, c], [b, c, a], [c, a, b], [c, b, a]}
       \<longrightarrow> ordenar_registros lib items = Inr [a, b, c]
           \<and> (\<exists>res. processar lib delete_inventory dry_run items = Inr res
                  \<and> duplicados res = 1 \<and> impresso res = [(h, a, [b, c])])
           \<and> processar lib delete_inventory True items =
               Inr \<lparr>duplicados = 1, removidos = 0, ignorados = 2, erros = [],
                    impresso = [(h, a, [b, c])]\<rparr>)"
proof (intro conjI allI impI)
  show "(\<exists>ords. ordenar_registros lib regs = Inr ords) \<longleftrightarrow>
      (\<exists>keys. map (score lib) regs = map Inr keys
         \<and> (\<forall>k1 \<in> set keys. \<forall>k2 \<in> set keys. comparable k1 k2))"
    by (rule ordenar_registros_succeeds)
next
  fix ords
  assume o: "ordenar_registros lib regs = Inr ords"
  show "mset ords = mset regs"
    by (rule ordenar_registros_sorted(1) [OF o])
  show "sorted_wrt (\<lambda>x y. \<exists>kx ky. score lib x = Inr kx \<and> score lib y = Inr ky
                              \<and> key_lt kx ky = Inr False) ords"
    by (rule ordenar_registros_sorted(2) [OF o])
next
  fix host m rest v res
  assume "1 < length regs" "ordenar_registros lib regs = Inr (m # rest)" "m ''machine_id'' = Some v"
  then show "processar_grupos lib delete_inventory dry_run [(host, regs)] res =
          Inr (apagar delete_inventory dry_run rest
                 (res\<lparr>duplicados := duplicados res + 1,
                      impresso := impresso res @ [(host, m, rest)]\<rparr>))"
    by (rule processar_grupos_single)
next
  assume h: "hostname_key a = Inr h \<and> hostname_key b = Inr h \<and> hostname_key c = Inr h \<and> h \<noteq> []
       \<and> a ''machine_id'' \<noteq> None
       \<and> parse_dt lib (dict_get a ''updated_at'') = Inr (Some t3)
       \<and> parse_dt lib (dict_get a ''created_at'') = Inr ca
       \<and> dict_get b ''updated_at'' = PNone
       \<and> parse_dt lib (dict_get b ''created_at'') = Inr (Some t1)
       \<and> parse_dt lib (dict_get c ''updated_at'') = Inr (Some t2)
       \<and> parse_dt lib (dict_get c ''created_at'') = Inr cc
       \<and> dt_lt t2 t1 = Inr True \<and> dt_lt t1 t3 = Inr True
       \<and> items \<in> {[a, b, c], [a, c, b], [b, a, c], [b, c, a], [c, a, b], [c, b, a]}"
  then obtain v where v: "a ''machine_id'' = Some v"
    by blast
  from h have sa: "score lib a = Inr (t3, case ca of Some x \<Rightarrow> x | None \<Rightarrow> datetime_min)"
    and sb: "score lib b = Inr (t1, t1)"
    and sc: "score lib c = Inr (t2, case cc of Some x \<Rightarrow> x | None \<Rightarrow> datetime_min)"
    by (simp_all add: score_def parse_dt_def)
  from h have srt: "ordenar_registros lib items = Inr [a, b, c]"
    by (intro three_records_sorted [OF sa sb sc]) simp_all
  then show "ordenar_registros lib items = Inr [a, b, c]" .
  from h have len: "1 < length items"
    by auto
  from h have grp: "agrupar items [] = Inr [(h, items)]"
    by (elim conjE insertE emptyE) (simp_all add: add_to_group_def)
  have pr: "processar lib delete_inventory dry items =
      Inr (apagar delete_inventory dry [b, c]
             \<lparr>duplicados = 1, removidos = 0, ignorados = 0, erros = [],
              impresso = [(h, a, [b, c])]\<rparr>)" for dry
  proof -
    let ?res = "\<lparr>duplicados = 0, removidos = 0, ignorados = 0, erros = [], impresso = []\<rparr>"
    have "processar lib delete_inventory dry items =
        processar_grupos lib delete_inventory dry [(h, items)] ?res"
      unfolding processar_def grp by (simp only: bind_exn_simps)
    also have "\<dots> = Inr (apagar delete_inventory dry [b, c]
        (?res\<lparr>duplicados := duplicados ?res + 1,
              impresso := impresso ?res @ [(h, a, [b, c])]\<rparr>))"
      by (rule processar_grupos_single [OF len srt v])
    also have "?res\<lparr>duplicados := duplicados ?res + 1,
              impresso := impresso ?res @ [(h, a, [b, c])]\<rparr> =
        \<lparr>duplicados = 1, removidos = 0, ignorados = 0, erros = [],
              impresso = [(h, a, [b, c])]\<rparr>"
      by simp
    finally show ?thesis .
  qed
  let ?one = "\<lparr>duplicados = 1, removidos = 0, ignorados = 0, erros = [],
              impresso = [(h, a, [b, c])]\<rparr>"
  have "duplicados (apagar delete_inventory dry_run [b, c] ?one) = 1"
    "impresso (apagar delete_inventory dry_run [b, c] ?one) = [(h, a, [b, c])]"
    by (simp_all only: apagar_keeps resultado.simps)
  with pr [of dry_run]
  show "\<exists>res. processar lib delete_inventory dry_run items = Inr res
                  \<and> duplicados res = 1 \<and> impresso res = [(h, a, [b, c])]"
    by blast
  have "apagar delete_inventory True [b, c] ?one =
      \<lparr>duplicados = 1, removidos = 0, ignorados = 2, erros = [],
              impresso = [(h, a, [b, c])]\<rparr>"
    by (simp add: apagar_dry_run)
  with pr [of True] show "processar lib delete_inventory True items =
               Inr \<lparr>duplicados = 1, removidos = 0, ignorados = 2, erros = [],
                    impresso = [(h, a, [b, c])]\<rparr>"
    by simp
qed

theorem dedup_resolver_order_witness:
  "ordenar_registros ref_lib [record_t2, record_t1, record_t3]
     = Inr [record_t3, record_t1, record_t2]
   \<and> processar ref_lib (\<lambda>mid. None) True [record_t2, record_t1, record_t3]
     = Inr \<lparr>duplicados = 1, removidos = 0, ignorados = 2, erros = [],
            impresso = [(''H'', record_t3, [record_t1, record_t2])]\<rparr>"
proof -
  let ?t3 = "\<lparr>wall = mk_wall 2024 3 1 10 0 0 0, tzinfo = Some (- 4 * hour_us)\<rparr>"
  let ?t1 = "\<lparr>wall = mk_wall 2024 2 1 10 0 0 0, tzinfo = Some (- 4 * hour_us)\<rparr>"
  let ?t2 = "\<lparr>wall = mk_wall 2024 1 15 10 0 0 0, tzinfo = Some (- 4 * hour_us)\<rparr>"
  let ?c3 = "Some \<lparr>wall = mk_wall 2024 1 1 10 0 0 0, tzinfo = Some (- 4 * hour_us)\<rparr>"
  let ?c2 = "Some \<lparr>wall = mk_wall 2024 1 10 10 0 0 0, tzinfo = Some (- 4 * hour_us)\<rparr>"
  have hosts: "hostname_key record_t3 = Inr ''H''" "hostname_key record_t1 = Inr ''H''"
    "hostname_key record_t2 = Inr ''H''"
    by code_simp+
  have mid: "record_t3 ''machine_id'' \<noteq> None"
    by (simp add: record_t3_def)
  have parses: "parse_dt ref_lib (dict_get record_t3 ''updated_at'') = Inr (Some ?t3)"
    "parse_dt ref_lib (dict_get record_t3 ''created_at'') = Inr ?c3"
    "dict_get record_t1 ''updated_at'' = PNone"
    "parse_dt ref_lib (dict_get record_t1 ''created_at'') = Inr (Some ?t1)"
    "parse_dt ref_lib (dict_get record_t2 ''updated_at'') = Inr (Some ?t2)"
    "parse_dt ref_lib (dict_get record_t2 ''created_at'') = Inr ?c2"
    by code_simp+
  have order: "dt_lt ?t2 ?t1 = Inr True" "dt_lt ?t1 ?t3 = Inr True"
    by code_simp+
  have "[record_t2, record_t1, record_t3] \<in>
      {[record_t3, record_t1, record_t2], [record_t3, record_t2, record_t1],
       [record_t1, record_t3, record_t2], [record_t1, record_t2, record_t3],
       [record_t2, record_t3, record_t1], [record_t2, record_t1, record_t3]}"
    by simp
  with hosts mid parses order
  show ?thesis
    using dedup_resolver_order [of ref_lib "[record_t2, record_t1, record_t3]" "\<lambda>mid. None" True
        record_t3 "''H''" record_t1 record_t2 ?t3 ?c3 ?t1 ?t2 ?c2
        "[record_t2, record_t1, record_t3]"]
    by simp
qed

end
